theory Spec2Isabelle
  imports Main "HOL-Library.Sublist" "HOL-Library.Char_ord" "HOL-Library.List_Lexorder"
begin

section \<open>JavaScript values\<close>

text \<open>
  Tool arguments arrive as a JSON object whose property values are untyped. The model keeps
  the scalar JSON values and \<open>undefined\<close> (the value of a property that is not there).
  Numbers are the integers; \<open>NaN\<close> is written \<open>None\<close> at the places where a coercion can
  produce it. The program computes on doubles: its sums and differences of times in
  milliseconds stay below \<open>2^53\<close> and are exact, and a product by 1000 is exact as long as
  it stays below \<open>2^56\<close> microseconds (the year 3884). Arrays and objects as argument
  values are outside the model. Strings are ASCII text.
\<close>

datatype jsval = JUndefined | JNull | JBool bool | JNum int | JStr string

fun truthy :: "jsval \<Rightarrow> bool" where
  "truthy JUndefined = False"
| "truthy JNull = False"
| "truthy (JBool b) = b"
| "truthy (JNum n) = (n \<noteq> 0)"
| "truthy (JStr s) = (s \<noteq> [])"

definition js_or :: "jsval \<Rightarrow> jsval \<Rightarrow> jsval" where
  \<comment> \<open>\<open>a || b\<close>\<close>
  "js_or a b = (if truthy a then a else b)"

definition get_prop :: "(string \<rightharpoonup> jsval) \<Rightarrow> string \<Rightarrow> jsval" where
  \<comment> \<open>\<open>args.key\<close> on an object that is there\<close>
  "get_prop m k = (case m k of None \<Rightarrow> JUndefined | Some v \<Rightarrow> v)"

definition NL :: string where
  "NL = [CHR 0x0A]"

definition DQ :: string where
  "DQ = [CHR 0x22]"

definition SQ :: string where
  "SQ = [CHR 0x27]"

fun show_nat :: "nat \<Rightarrow> string" where
  "show_nat n =
     (if n < 10 then [''0123456789'' ! n]
      else show_nat (n div 10) @ [''0123456789'' ! (n mod 10)])"

declare show_nat.simps [simp del]

definition show_int :: "int \<Rightarrow> string" where
  "show_int i = (if i < 0 then CHR ''-'' # show_nat (nat (- i)) else show_nat (nat i))"

fun to_string :: "jsval \<Rightarrow> string" where
  \<comment> \<open>the string a template literal or \<open>+ 'text'\<close> makes of a value\<close>
  "to_string JUndefined = ''undefined''"
| "to_string JNull = ''null''"
| "to_string (JBool b) = (if b then ''true'' else ''false'')"
| "to_string (JNum n) = show_int n"
| "to_string (JStr s) = s"

definition show_null :: "string option \<Rightarrow> string" where
  \<comment> \<open>interpolation of a column that is a string or \<open>null\<close>\<close>
  "show_null v = (case v of None \<Rightarrow> ''null'' | Some s \<Rightarrow> s)"

definition lower_char :: "char \<Rightarrow> char" where
  \<comment> \<open>the ASCII capitals go to their small letters, every other character stays\<close>
  "lower_char c =
     (case map_of (zip ''ABCDEFGHIJKLMNOPQRSTUVWXYZ'' ''abcdefghijklmnopqrstuvwxyz'') c of
        None \<Rightarrow> c
      | Some l \<Rightarrow> l)"

definition toLowerCase :: "string \<Rightarrow> string" where
  "toLowerCase s = map lower_char s"

definition js_whitespace :: "char \<Rightarrow> bool" where
  \<comment> \<open>the ASCII characters that \<open>String.prototype.trim\<close> removes\<close>
  "js_whitespace c = ((of_char c :: nat) \<in> {9, 10, 11, 12, 13, 32})"

definition trim :: "string \<Rightarrow> string" where
  "trim s = rev (dropWhile js_whitespace (rev (dropWhile js_whitespace s)))"

fun starts_with :: "string \<Rightarrow> string \<Rightarrow> bool" where
  "starts_with s [] = True"
| "starts_with [] (c # t) = False"
| "starts_with (d # s) (c # t) = (d = c \<and> starts_with s t)"

fun js_includes :: "string \<Rightarrow> string \<Rightarrow> bool" where
  \<comment> \<open>\<open>s.includes(t)\<close>\<close>
  "js_includes [] t = (t = [])"
| "js_includes (d # s) t = (starts_with (d # s) t \<or> js_includes s t)"

definition tdiv :: "int \<Rightarrow> int \<Rightarrow> int" where
  \<comment> \<open>integer division that truncates toward zero (SQLite \<open>/\<close> on integers, \<open>TimeClip\<close>)\<close>
  "tdiv a b = sgn a * sgn b * (\<bar>a\<bar> div \<bar>b\<bar>)"

section \<open>The environment of a call\<close>

text \<open>
  The history store holds the two tables the queries read. Column \<open>url\<close> is taken to
  hold a string in every row; \<open>title\<close> may be \<open>NULL\<close>; \<open>visit_count\<close> and
  \<open>last_visit_time\<close> are \<open>NOT NULL\<close> integers. Times are microseconds since
  1601-01-01 (UTC).
\<close>

record url_row =
  url_id :: int
  url :: string
  title :: "string option"
  visit_count :: int
  last_visit_time :: int

record visit_row =
  visit_url :: int
  visit_time :: int

record store =
  urls :: "url_row list"
  visits :: "visit_row list"

text \<open>
  A bookmark node of the Bookmarks file: the properties \<open>type\<close>, \<open>name\<close>, \<open>url\<close>,
  \<open>date_added\<close> (strings) and \<open>children\<close> (an array of nodes), each \<open>None\<close> when the
  node does not have it.
\<close>

datatype bnode =
  BNode (ntype: "string option") (nname: "string option") (nurl: "string option")
        (date_added: "string option") (children: "bnode list option")

record env =
  now :: int
    \<comment> \<open>\<open>Date.now()\<close>, milliseconds since 1970-01-01\<close>
  db :: "string + store"
    \<comment> \<open>\<open>Inl msg\<close>: \<open>queryHistory\<close> rejects with \<open>Error(msg)\<close> (no profile, no database, locked)\<close>
  bookmarks_file :: "string + (string \<times> bnode) list option"
    \<comment> \<open>\<open>Inl msg\<close>: \<open>readBookmarks\<close> rejects; \<open>Inr roots\<close>: the \<open>roots\<close> property of the parsed file,
        its entries in insertion order\<close>
  date_parse :: "string \<Rightarrow> int option"
    \<comment> \<open>\<open>new Date(s).getTime()\<close>; \<open>None\<close> is \<open>NaN\<close>\<close>
  str_to_number :: "string \<Rightarrow> int option"
    \<comment> \<open>\<open>ToNumber\<close> of a string; \<open>None\<close> is \<open>NaN\<close>\<close>
  sql_text_to_int :: "string \<Rightarrow> int option"
    \<comment> \<open>SQLite's lossless conversion of a text value to an integer\<close>
  url_hostname :: "string \<Rightarrow> string option"
    \<comment> \<open>\<open>new URL(s).hostname\<close>; \<open>None\<close>: the constructor throws\<close>
  sql_datetime :: "int \<Rightarrow> string option"
    \<comment> \<open>SQLite \<open>datetime(secs, 'unixepoch')\<close>; \<open>None\<close> is \<open>NULL\<close>\<close>
  to_locale_string :: "int \<Rightarrow> string"
    \<comment> \<open>\<open>Number.prototype.toLocaleString\<close>\<close>
  parse_int :: "string \<Rightarrow> int option"
    \<comment> \<open>\<open>parseInt(s)\<close>; \<open>None\<close> is \<open>NaN\<close>\<close>

definition epoch_1601_ms :: int where
  \<comment> \<open>\<open>new Date('1601-01-01').getTime()\<close>: a date-only ISO string is UTC midnight\<close>
  "epoch_1601_ms = - 11644473600000"

definition time_clip :: "int \<Rightarrow> int option" where
  \<comment> \<open>\<open>new Date(t).getTime()\<close> on a number\<close>
  "time_clip t = (if \<bar>t\<bar> > 8640000000000000 then None else Some t)"

fun to_number :: "env \<Rightarrow> jsval \<Rightarrow> int option" where
  "to_number e JUndefined = None"
| "to_number e JNull = Some 0"
| "to_number e (JBool b) = Some (if b then 1 else 0)"
| "to_number e (JNum n) = Some n"
| "to_number e (JStr s) = str_to_number e s"

definition chrome_secs :: "int \<Rightarrow> int" where
  \<comment> \<open>\<open>t/1000000 + strftime('%s', '1601-01-01')\<close>\<close>
  "chrome_secs t = tdiv t 1000000 + (- 11644473600)"

definition chrome_datetime :: "env \<Rightarrow> int \<Rightarrow> string option" where
  "chrome_datetime e t = sql_datetime e (chrome_secs t)"

section \<open>SQL building blocks\<close>

fun like :: "string \<Rightarrow> string \<Rightarrow> bool" where
  \<comment> \<open>\<open>s LIKE p\<close> as \<open>like p s\<close>: \<open>%\<close> is any run of characters, \<open>_\<close> any one character,
      other characters compare without ASCII case; no escape character\<close>
  "like [] s = (s = [])"
| "like (p # ps) [] = (p = CHR ''%'' \<and> like ps [])"
| "like (p # ps) (c # s) =
     (if p = CHR ''%'' then like ps (c # s) \<or> like (p # ps) s
      else if p = CHR ''_'' then like ps s
      else lower_char p = lower_char c \<and> like ps s)"

definition like_null :: "string \<Rightarrow> string option \<Rightarrow> bool" where
  \<comment> \<open>a \<open>NULL\<close> column matches no pattern\<close>
  "like_null p v = (case v of None \<Rightarrow> False | Some s \<Rightarrow> like p s)"

definition ge_param :: "int \<Rightarrow> int option \<Rightarrow> bool" where
  \<comment> \<open>\<open>col >= ?\<close>; a \<open>NaN\<close> parameter is bound as \<open>NULL\<close> and the comparison is not true\<close>
  "ge_param c p = (case p of None \<Rightarrow> False | Some t \<Rightarrow> c \<ge> t)"

definition le_param :: "int \<Rightarrow> int option \<Rightarrow> bool" where
  "le_param c p = (case p of None \<Rightarrow> False | Some t \<Rightarrow> c \<le> t)"

definition sql_limit :: "int \<Rightarrow> 'a list \<Rightarrow> 'a list" where
  \<comment> \<open>\<open>LIMIT n\<close>: a negative \<open>n\<close> is no limit\<close>
  "sql_limit n xs = (if n < 0 then xs else take (nat n) xs)"

definition mismatch :: string where
  "mismatch = ''Database query failed: SQLITE_MISMATCH: datatype mismatch''"

fun bind_limit :: "env \<Rightarrow> jsval \<Rightarrow> string + int" where
  \<comment> \<open>the value bound to \<open>LIMIT ?\<close>: numbers and booleans are integers, a string is text
      that must convert to an integer, \<open>NULL\<close> is refused\<close>
  "bind_limit e (JNum n) = Inr n"
| "bind_limit e (JBool b) = Inr (if b then 1 else 0)"
| "bind_limit e (JStr s) =
     (case sql_text_to_int e s of None \<Rightarrow> Inl mismatch | Some n \<Rightarrow> Inr n)"
| "bind_limit e JNull = Inl mismatch"
| "bind_limit e JUndefined = Inl mismatch"

definition queryHistory :: "env \<Rightarrow> (store \<Rightarrow> string + 'a) \<Rightarrow> string + 'a" where
  \<comment> \<open>the query is a function of the tables; the database must open first\<close>
  "queryHistory e q = (case db e of Inl msg \<Rightarrow> Inl msg | Inr st \<Rightarrow> q st)"

section \<open>The Data Provider: searchHistory\<close>

record history_entry =
  h_url :: string
  h_title :: "string option"
  h_visit_count :: int
  h_last_visit_time :: int
  h_last_visit_date :: "string option"

record search_options =
  startDate :: jsval
  endDate :: jsval
  limit :: jsval

definition hasSearchQuery :: "jsval \<Rightarrow> string + bool" where
  \<comment> \<open>\<open>searchQuery && searchQuery.trim().length > 0\<close>; a truthy value that is no string has
      no \<open>trim\<close> and the call throws a TypeError\<close>
  "hasSearchQuery q =
     (if \<not> truthy q then Inr False
      else case q of
             JStr s \<Rightarrow> Inr (length (trim s) > 0)
           | _ \<Rightarrow> Inl ''searchQuery.trim is not a function'')"

definition day_timestamp :: "env \<Rightarrow> jsval \<Rightarrow> string \<Rightarrow> int option" where
  \<comment> \<open>\<open>(new Date(d + suffix).getTime() - new Date('1601-01-01').getTime()) * 1000\<close>\<close>
  "day_timestamp e d suf =
     map_option (\<lambda>t. (t - epoch_1601_ms) * 1000) (date_parse e (to_string d @ suf))"

definition like_pattern :: "jsval \<Rightarrow> string" where
  "like_pattern q = ''%'' @ to_string q @ ''%''"

definition search_where :: "env \<Rightarrow> bool \<Rightarrow> jsval \<Rightarrow> jsval \<Rightarrow> jsval \<Rightarrow> url_row \<Rightarrow> bool" where
  \<comment> \<open>the \<open>WHERE\<close> clause that \<open>searchHistory\<close> assembles\<close>
  "search_where e hasq q sd ed r =
     ((if hasq
       then like_null (like_pattern q) (Some (url r)) \<or> like_null (like_pattern q) (title r)
       else True)
      \<and> (if truthy sd
         then ge_param (last_visit_time r) (day_timestamp e sd ''T00:00:00'')
         else True)
      \<and> (if truthy ed
         then le_param (last_visit_time r) (day_timestamp e ed ''T23:59:59.999'')
         else True))"

definition select_history :: "env \<Rightarrow> url_row \<Rightarrow> history_entry" where
  "select_history e r =
     \<lparr>h_url = url r, h_title = title r, h_visit_count = visit_count r,
      h_last_visit_time = last_visit_time r,
      h_last_visit_date = chrome_datetime e (last_visit_time r)\<rparr>"

definition order_by_last_visit_desc :: "url_row list \<Rightarrow> url_row list" where
  \<comment> \<open>\<open>ORDER BY urls.last_visit_time DESC\<close>; rows with equal times keep their table order
      here (the engine leaves the order of ties open)\<close>
  "order_by_last_visit_desc rs = sort_key (\<lambda>r. - last_visit_time r) rs"

definition search_sql ::
  "env \<Rightarrow> bool \<Rightarrow> jsval \<Rightarrow> jsval \<Rightarrow> jsval \<Rightarrow> jsval \<Rightarrow> store \<Rightarrow> string + history_entry list" where
  "search_sql e hasq q sd ed lim st =
     (case bind_limit e lim of
        Inl msg \<Rightarrow> Inl msg
      | Inr n \<Rightarrow>
          Inr (map (select_history e)
                 (sql_limit n
                    (order_by_last_visit_desc (filter (search_where e hasq q sd ed) (urls st))))))"

definition searchHistory :: "env \<Rightarrow> jsval \<Rightarrow> search_options \<Rightarrow> string + history_entry list" where
  "searchHistory e searchQuery options =
     (let lim = (if limit options = JUndefined then JNum 50 else limit options) in
      case hasSearchQuery searchQuery of
        Inl msg \<Rightarrow> Inl msg
      | Inr hasq \<Rightarrow>
          queryHistory e
            (search_sql e hasq searchQuery (startDate options) (endDate options) lim))"

section \<open>The Tool Dispatcher\<close>

record content_block =
  ctype :: string
  ctext :: string

record tool_result =
  content :: "content_block list"

datatype fault =
    MethodNotFound string
  | TypeError string

datatype provider_call =
    SearchHistoryCall jsval jsval jsval jsval
  | GetRecentBrowsingCall jsval jsval bool
  | GetHistoryStatsCall

type_synonym outcome = "(fault + tool_result) \<times> provider_call list"

definition text_result :: "string \<Rightarrow> tool_result" where
  "text_result t = \<lparr>content = [\<lparr>ctype = ''text'', ctext = t\<rparr>]\<rparr>"

definition undefined_read :: "string \<Rightarrow> string" where
  \<comment> \<open>the message of the TypeError that reading a property of \<open>undefined\<close> throws\<close>
  "undefined_read k = ''Cannot read properties of undefined (reading '' @ SQ @ k @ SQ @ '')''"

definition title_or_untitled :: "string option \<Rightarrow> string" where
  \<comment> \<open>\<open>entry.title || 'Untitled'\<close>\<close>
  "title_or_untitled t =
     (case t of None \<Rightarrow> ''Untitled'' | Some s \<Rightarrow> if s = [] then ''Untitled'' else s)"

definition length_is :: "'a list \<Rightarrow> jsval \<Rightarrow> bool" where
  \<comment> \<open>\<open>xs.length === v\<close>\<close>
  "length_is xs v = (v = JNum (int (length xs)))"

definition date_range_line :: "jsval \<Rightarrow> jsval \<Rightarrow> string" where
  "date_range_line sd ed =
     (if truthy sd \<or> truthy ed
      then NL @ ''Date range: '' @ to_string (js_or sd (JStr ''beginning'')) @ '' to ''
             @ to_string (js_or ed (JStr ''present''))
      else [])"

definition format_search_entry :: "env \<Rightarrow> nat \<times> history_entry \<Rightarrow> string" where
  "format_search_entry e ie =
     (case ie of (index, entry) \<Rightarrow>
        show_nat (index + 1) @ ''. '' @ title_or_untitled (h_title entry) @ NL
        @ ''   URL: '' @ h_url entry @ NL
        @ ''   Last visited: '' @ show_null (h_last_visit_date entry) @ NL
        @ ''   Visit count: '' @ show_int (h_visit_count entry) @ NL
        @ (case url_hostname e (h_url entry) of
             Some host \<Rightarrow> ''   Domain: '' @ host @ NL
           | None \<Rightarrow> [])
        @ NL)"

definition truncation_notice :: "jsval \<Rightarrow> string" where
  "truncation_notice lim = '' (limited to '' @ to_string lim @ '' entries)''"

definition format_search ::
  "env \<Rightarrow> jsval \<Rightarrow> jsval \<Rightarrow> jsval \<Rightarrow> jsval \<Rightarrow> history_entry list \<Rightarrow> string" where
  "format_search e query sd ed lim searchResults =
     (if truthy query then ''Search results for '' @ DQ @ to_string query @ DQ @ '':'' @ NL @ NL
      else ''Browsing history:'' @ NL @ NL)
     @ (if length searchResults = 0
        then ''No matching entries found in your browsing history.'' @ date_range_line sd ed
        else concat (map (format_search_entry e) (enumerate 0 searchResults))
             @ NL @ ''Total results: '' @ show_nat (length searchResults)
             @ (if length_is searchResults lim then truncation_notice lim else [])
             @ date_range_line sd ed)"

definition search_error_text :: "string \<Rightarrow> string" where
  "search_error_text msg =
     ''Error searching history: '' @ msg @ NL @ NL
     @ ''This might occur if:'' @ NL
     @ ''- Chrome is not installed'' @ NL
     @ ''- Chrome profile cannot be accessed'' @ NL
     @ ''- History database is locked (Chrome is running)'' @ NL
     @ ''- Invalid date format (use YYYY-MM-DD)''"

definition query_required_text :: string where
  "query_required_text = ''Error: Please provide either a search query or a date range (or both)''"

definition search_history_limit :: "(string \<rightharpoonup> jsval) \<Rightarrow> jsval" where
  \<comment> \<open>\<open>args.limit || 100\<close>\<close>
  "search_history_limit m = js_or (get_prop m ''limit'') (JNum 100)"

definition search_history_tool ::
  "env \<Rightarrow> (string \<rightharpoonup> jsval) option \<Rightarrow> tool_result \<times> provider_call list" where
  "search_history_tool e args =
     (case args of
        None \<Rightarrow> (text_result (search_error_text (undefined_read ''query'')), [])
      | Some m \<Rightarrow>
          let query = js_or (get_prop m ''query'') (JStr []);
              sd = get_prop m ''start_date'';
              ed = get_prop m ''end_date'';
              lim = search_history_limit m
          in if \<not> truthy query \<and> \<not> truthy sd \<and> \<not> truthy ed
             then (text_result query_required_text, [])
             else (case searchHistory e query \<lparr>startDate = sd, endDate = ed, limit = lim\<rparr> of
                     Inl msg \<Rightarrow> text_result (search_error_text msg)
                   | Inr searchResults \<Rightarrow>
                       text_result (format_search e query sd ed lim searchResults),
                   [SearchHistoryCall query sd ed lim]))"

section \<open>The Data Provider: getRecentBrowsing and getHistoryStats\<close>

record recent_row =
  r_url :: string
  r_title :: "string option"
  r_visit_count :: int
  r_last_visit_time :: int
  r_last_visit_date :: "string option"
  r_visit_time :: int
  r_visit_date :: "string option"

record recent_entry =
  e_url :: string
  e_title :: string
  e_last_visit_date :: "string option"
  e_visit_count :: int
  e_domain :: "string option"

definition hoursAgo :: "env \<Rightarrow> jsval \<Rightarrow> int option" where
  \<comment> \<open>\<open>new Date(Date.now() - (hours * 60 * 60 * 1000)).getTime()\<close>\<close>
  "hoursAgo e hours =
     (case to_number e hours of
        None \<Rightarrow> None
      | Some h \<Rightarrow> time_clip (now e - h * 60 * 60 * 1000))"

definition chromeTimestamp :: "env \<Rightarrow> jsval \<Rightarrow> int option" where
  "chromeTimestamp e hours = map_option (\<lambda>t. (t - epoch_1601_ms) * 1000) (hoursAgo e hours)"

definition join_visits :: "store \<Rightarrow> (url_row \<times> visit_row) list" where
  \<comment> \<open>\<open>urls INNER JOIN visits ON urls.id = visits.url\<close>\<close>
  "join_visits st =
     concat (map (\<lambda>u. map (\<lambda>v. (u, v)) (filter (\<lambda>v. url_id u = visit_url v) (visits st)))
               (urls st))"

definition select_recent :: "env \<Rightarrow> url_row \<times> visit_row \<Rightarrow> recent_row" where
  "select_recent e uv =
     (case uv of (u, v) \<Rightarrow>
        \<lparr>r_url = url u, r_title = title u, r_visit_count = visit_count u,
         r_last_visit_time = last_visit_time u,
         r_last_visit_date = chrome_datetime e (last_visit_time u),
         r_visit_time = visit_time v,
         r_visit_date = chrome_datetime e (visit_time v)\<rparr>)"

definition recent_sql :: "env \<Rightarrow> int option \<Rightarrow> jsval \<Rightarrow> store \<Rightarrow> string + recent_row list" where
  \<comment> \<open>\<open>WHERE visits.visit_time >= ? ORDER BY visits.visit_time DESC LIMIT ?\<close>\<close>
  "recent_sql e ts lim st =
     (case bind_limit e lim of
        Inl msg \<Rightarrow> Inl msg
      | Inr n \<Rightarrow>
          Inr (map (select_recent e)
                 (sql_limit n
                    (sort_key (\<lambda>uv. - visit_time (snd uv))
                       (filter (\<lambda>uv. ge_param (visit_time (snd uv)) ts) (join_visits st))))))"

definition process_recent :: "env \<Rightarrow> bool \<Rightarrow> recent_row \<Rightarrow> recent_entry" where
  "process_recent e includeDetails entry =
     \<lparr>e_url = r_url entry,
      e_title = title_or_untitled (r_title entry),
      e_last_visit_date = r_visit_date entry,
      e_visit_count = r_visit_count entry,
      e_domain =
        (if includeDetails
         then Some (case url_hostname e (r_url entry) of Some host \<Rightarrow> host | None \<Rightarrow> ''Unknown'')
         else None)\<rparr>"

definition getRecentBrowsing :: "env \<Rightarrow> jsval \<Rightarrow> jsval \<Rightarrow> bool \<Rightarrow> string + recent_entry list" where
  "getRecentBrowsing e hours0 limit0 includeDetails =
     (let hours = (if hours0 = JUndefined then JNum 24 else hours0);
          lim = (if limit0 = JUndefined then JNum 50 else limit0)
      in case queryHistory e (recent_sql e (chromeTimestamp e hours) lim) of
           Inl msg \<Rightarrow> Inl msg
         | Inr results \<Rightarrow> Inr (map (process_recent e includeDetails) results))"

record history_stats =
  total_urls :: int
  total_visits :: "int option"
  earliest_visit :: "string option"
  latest_visit :: "string option"

definition non_null :: "'a option list \<Rightarrow> 'a list" where
  "non_null xs = map the (filter (\<lambda>x. x \<noteq> None) xs)"

definition sql_min :: "string option list \<Rightarrow> string option" where
  \<comment> \<open>\<open>MIN\<close> over text values: \<open>NULL\<close>s are skipped, no value gives \<open>NULL\<close>\<close>
  "sql_min xs = (case non_null xs of [] \<Rightarrow> None | y # ys \<Rightarrow> Some (fold min ys y))"

definition sql_max :: "string option list \<Rightarrow> string option" where
  "sql_max xs = (case non_null xs of [] \<Rightarrow> None | y # ys \<Rightarrow> Some (fold max ys y))"

definition sql_sum :: "int list \<Rightarrow> int option" where
  \<comment> \<open>\<open>SUM\<close> over no rows is \<open>NULL\<close>\<close>
  "sql_sum xs = (if xs = [] then None else Some (sum_list xs))"

definition stats_sql :: "env \<Rightarrow> store \<Rightarrow> string + history_stats list" where
  \<comment> \<open>an aggregate query without \<open>GROUP BY\<close> has exactly one result row\<close>
  "stats_sql e st =
     (let rows = filter (\<lambda>r. visit_count r > 0) (urls st);
          dates = map (\<lambda>r. chrome_datetime e (last_visit_time r)) rows
      in Inr [\<lparr>total_urls = int (length rows),
               total_visits = sql_sum (map visit_count rows),
               earliest_visit = sql_min dates,
               latest_visit = sql_max dates\<rparr>])"

definition getHistoryStats :: "env \<Rightarrow> string + history_stats option" where
  \<comment> \<open>\<open>results[0]\<close>; \<open>None\<close> is \<open>undefined\<close>, the first element of an empty array\<close>
  "getHistoryStats e =
     (case queryHistory e (stats_sql e) of
        Inl msg \<Rightarrow> Inl msg
      | Inr results \<Rightarrow> Inr (case results of [] \<Rightarrow> None | x # _ \<Rightarrow> Some x))"

section \<open>The remaining handlers\<close>

definition recent_error_text :: "string \<Rightarrow> string" where
  "recent_error_text msg =
     ''Error retrieving recent browsing activity: '' @ msg @ NL @ NL
     @ ''This might occur if:'' @ NL
     @ ''- Chrome is not installed'' @ NL
     @ ''- Chrome profile cannot be accessed'' @ NL
     @ ''- History database is locked (Chrome is running)''"

definition format_recent_entry :: "bool \<Rightarrow> nat \<times> recent_entry \<Rightarrow> string" where
  "format_recent_entry includeDetails ie =
     (case ie of (index, entry) \<Rightarrow>
        show_nat (index + 1) @ ''. ''
        @ (if e_title entry = [] then ''Untitled'' else e_title entry) @ NL
        @ ''   URL: '' @ e_url entry @ NL
        @ ''   Last visited: '' @ show_null (e_last_visit_date entry) @ NL
        @ (if includeDetails
           then ''   Visit count: '' @ show_int (e_visit_count entry) @ NL
                @ (case e_domain entry of
                     None \<Rightarrow> []
                   | Some d \<Rightarrow> if d = [] then [] else ''   Domain: '' @ d @ NL)
           else [])
        @ NL)"

definition format_recent :: "jsval \<Rightarrow> jsval \<Rightarrow> bool \<Rightarrow> recent_entry list \<Rightarrow> string" where
  "format_recent hours lim includeDetails recentBrowsing =
     ''Recent browsing activity (last '' @ to_string hours @ '' hours):'' @ NL @ NL
     @ (if length recentBrowsing = 0
        then ''No browsing activity found in the specified timeframe.''
        else concat (map (format_recent_entry includeDetails) (enumerate 0 recentBrowsing))
             @ NL @ ''Total entries: '' @ show_nat (length recentBrowsing)
             @ (if length_is recentBrowsing lim
                then '' (limited to '' @ to_string lim @ '' results)'' else []))"

definition get_recent_browsing_tool ::
  "env \<Rightarrow> (string \<rightharpoonup> jsval) option \<Rightarrow> tool_result \<times> provider_call list" where
  "get_recent_browsing_tool e args =
     (case args of
        None \<Rightarrow> (text_result (recent_error_text (undefined_read ''hours'')), [])
      | Some m \<Rightarrow>
          let hours = js_or (get_prop m ''hours'') (JNum 24);
              lim = js_or (get_prop m ''limit'') (JNum 50);
              includeDetails = (get_prop m ''include_visit_details'' \<noteq> JBool False)
          in (case getRecentBrowsing e hours lim includeDetails of
                Inl msg \<Rightarrow> text_result (recent_error_text msg)
              | Inr recentBrowsing \<Rightarrow>
                  text_result (format_recent hours lim includeDetails recentBrowsing),
              [GetRecentBrowsingCall hours lim includeDetails]))"

definition stats_text :: "string \<Rightarrow> string \<Rightarrow> string option \<Rightarrow> string option \<Rightarrow> string" where
  "stats_text urls_text visits_text earliest latest =
     ''Chrome History Database Statistics:'' @ NL @ NL
     @ ''**Overview:**'' @ NL
     @ ''- Total unique URLs: '' @ urls_text @ NL
     @ ''- Total visits: '' @ visits_text @ NL @ NL
     @ ''**Date Range:**'' @ NL
     @ ''- Earliest visit: '' @ show_null earliest @ NL
     @ ''- Latest visit: '' @ show_null latest @ NL @ NL
     @ ''**Note:** This shows the full range of data available in your Chrome history database.'' @ NL
     @ ''If you'' @ SQ @ ''re not seeing results for specific dates, they might be outside this range.''"

definition stats_error_text :: "string \<Rightarrow> string" where
  "stats_error_text msg = ''Error getting history statistics: '' @ msg"

definition null_read :: "string \<Rightarrow> string" where
  \<comment> \<open>the message of the TypeError that reading a property of \<open>null\<close> throws\<close>
  "null_read k = ''Cannot read properties of null (reading '' @ SQ @ k @ SQ @ '')''"

definition format_stats :: "env \<Rightarrow> history_stats option \<Rightarrow> string + string" where
  \<comment> \<open>the template literal of the handler; \<open>Inl\<close> is the message of a TypeError thrown while
      it is evaluated (\<open>toLocaleString\<close> read on \<open>null\<close>)\<close>
  "format_stats e stats =
     (case stats of
        None \<Rightarrow> Inl (undefined_read ''total_urls'')
      | Some s \<Rightarrow>
          (case total_visits s of
             None \<Rightarrow> Inl (null_read ''toLocaleString'')
           | Some v \<Rightarrow>
               Inr (stats_text (to_locale_string e (total_urls s)) (to_locale_string e v)
                      (earliest_visit s) (latest_visit s))))"

definition get_history_stats_tool :: "env \<Rightarrow> tool_result \<times> provider_call list" where
  "get_history_stats_tool e =
     (case getHistoryStats e of
        Inl msg \<Rightarrow> text_result (stats_error_text msg)
      | Inr stats \<Rightarrow>
          (case format_stats e stats of
             Inl msg \<Rightarrow> text_result (stats_error_text msg)
           | Inr resultText \<Rightarrow> text_result resultText),
      [GetHistoryStatsCall])"

definition get_bookmarks_tool :: tool_result where
  "get_bookmarks_tool =
     text_result (''Placeholder: Retrieving bookmarks'' @ NL
       @ ''This tool will read Chrome bookmarks and organize them by folders.'')"

definition analyze_browsing_patterns_tool :: "(string \<rightharpoonup> jsval) option \<Rightarrow> fault + tool_result" where
  \<comment> \<open>\<open>args.timeframe\<close> is read outside any \<open>try\<close>\<close>
  "analyze_browsing_patterns_tool args =
     (case args of
        None \<Rightarrow> Inl (TypeError (undefined_read ''timeframe''))
      | Some m \<Rightarrow>
          Inr (text_result
                 (''Placeholder: Analyzing browsing patterns for ''
                  @ to_string (js_or (get_prop m ''timeframe'') (JStr ''week'')) @ NL
                  @ ''This tool will generate insights about browsing habits and frequently visited sites.'')))"

definition export_data_tool :: "(string \<rightharpoonup> jsval) option \<Rightarrow> fault + tool_result" where
  \<comment> \<open>\<open>args.format\<close> is read outside any \<open>try\<close>\<close>
  "export_data_tool args =
     (case args of
        None \<Rightarrow> Inl (TypeError (undefined_read ''format''))
      | Some m \<Rightarrow>
          Inr (text_result
                 (''Placeholder: Exporting data in ''
                  @ to_string (js_or (get_prop m ''format'') (JStr ''json'')) @ '' format'' @ NL
                  @ ''This tool will export browser data to the specified format.'')))"

record call_request =
  req_name :: string
  req_arguments :: "(string \<rightharpoonup> jsval) option"

definition callTool :: "env \<Rightarrow> call_request \<Rightarrow> outcome" where
  \<comment> \<open>the \<open>CallToolRequestSchema\<close> handler: the \<open>switch\<close> on the tool name\<close>
  "callTool e request =
     (let name = req_name request; args = req_arguments request in
      if name = ''search_history''
        then (case search_history_tool e args of (r, calls) \<Rightarrow> (Inr r, calls))
      else if name = ''get_bookmarks''
        then (Inr get_bookmarks_tool, [])
      else if name = ''analyze_browsing_patterns''
        then (analyze_browsing_patterns_tool args, [])
      else if name = ''export_data''
        then (export_data_tool args, [])
      else if name = ''get_recent_browsing''
        then (case get_recent_browsing_tool e args of (r, calls) \<Rightarrow> (Inr r, calls))
      else if name = ''get_history_stats''
        then (case get_history_stats_tool e of (r, calls) \<Rightarrow> (Inr r, calls))
      else (Inl (MethodNotFound (''Unknown tool: '' @ name)), []))"

section \<open>The Tool Registry\<close>

text \<open>
  The descriptors of the \<open>ListToolsRequestSchema\<close> handler, in its order. A property keeps
  its type, default, bounds and enumeration; the descriptions of the properties are left out.
\<close>

record prop_schema =
  ptype :: string
  pdefault :: "jsval option"
  pminimum :: "int option"
  pmaximum :: "int option"
  penum :: "string list option"

record tool_descriptor =
  tname :: string
  tdescription :: string
  tproperties :: "(string \<times> prop_schema) list"
  trequired :: "string list option"

definition plain :: "string \<Rightarrow> jsval option \<Rightarrow> prop_schema" where
  "plain ty d = \<lparr>ptype = ty, pdefault = d, pminimum = None, pmaximum = None, penum = None\<rparr>"

definition listTools :: "tool_descriptor list" where
  "listTools =
     [\<lparr>tname = ''search_history'',
       tdescription = ''Search browser history for specific terms or patterns'',
       tproperties =
         [(''query'', plain ''string'' None),
          (''start_date'', plain ''string'' None),
          (''end_date'', plain ''string'' None),
          (''limit'', plain ''number'' (Some (JNum 50)))],
       trequired = Some []\<rparr>,
      \<lparr>tname = ''get_bookmarks'',
       tdescription = ''Retrieve and analyze browser bookmarks'',
       tproperties =
         [(''folder'', plain ''string'' None),
          (''include_urls'', plain ''boolean'' (Some (JBool True)))],
       trequired = None\<rparr>,
      \<lparr>tname = ''analyze_browsing_patterns'',
       tdescription = ''Analyze browsing patterns and generate insights'',
       tproperties =
         [(''timeframe'',
           \<lparr>ptype = ''string'', pdefault = Some (JStr ''week''), pminimum = None, pmaximum = None,
            penum = Some [''day'', ''week'', ''month'', ''year'']\<rparr>),
          (''include_domains'', plain ''boolean'' (Some (JBool True)))],
       trequired = None\<rparr>,
      \<lparr>tname = ''export_data'',
       tdescription = ''Export browser history and bookmarks to various formats'',
       tproperties =
         [(''format'',
           \<lparr>ptype = ''string'', pdefault = Some (JStr ''json''), pminimum = None, pmaximum = None,
            penum = Some [''json'', ''csv'', ''html'']\<rparr>),
          (''include_history'', plain ''boolean'' (Some (JBool True))),
          (''include_bookmarks'', plain ''boolean'' (Some (JBool True)))],
       trequired = None\<rparr>,
      \<lparr>tname = ''get_recent_browsing'',
       tdescription =
         ''Shows browsing activity from the last 24 hours with visit counts and timestamps'',
       tproperties =
         [(''hours'',
           \<lparr>ptype = ''number'', pdefault = Some (JNum 24), pminimum = Some 1, pmaximum = Some 168,
            penum = None\<rparr>),
          (''limit'',
           \<lparr>ptype = ''number'', pdefault = Some (JNum 50), pminimum = Some 1, pmaximum = Some 500,
            penum = None\<rparr>),
          (''include_visit_details'', plain ''boolean'' (Some (JBool True)))],
       trequired = None\<rparr>,
      \<lparr>tname = ''get_history_stats'',
       tdescription =
         ''Get statistics about Chrome history database including date ranges and total entries'',
       tproperties = [],
       trequired = None\<rparr>]"

definition registered_names :: "string list" where
  "registered_names = map tname listTools"

section \<open>Bookmark traversal\<close>

record bookmark =
  b_title :: "string option"
  b_url :: "string option"
  b_dateAdded :: "int option"
  b_folder :: string

definition show_undefined :: "string option \<Rightarrow> string" where
  \<comment> \<open>interpolation of a property that is a string or \<open>undefined\<close>\<close>
  "show_undefined v = (case v of None \<Rightarrow> ''undefined'' | Some s \<Rightarrow> s)"

definition date_of_added :: "env \<Rightarrow> string option \<Rightarrow> int option" where
  \<comment> \<open>\<open>new Date(parseInt(date_added) / 1000)\<close>, as its time value; \<open>parseInt(undefined)\<close> is \<open>NaN\<close>\<close>
  "date_of_added e d =
     (case d of
        None \<Rightarrow> None
      | Some s \<Rightarrow> (case parse_int e s of None \<Rightarrow> None | Some n \<Rightarrow> time_clip (tdiv n 1000)))"

definition newFolderPath :: "string \<Rightarrow> string option \<Rightarrow> string" where
  \<comment> \<open>\<open>folderPath ? `${folderPath}/${child.name}` : child.name\<close>; an \<open>undefined\<close> result makes
      the callee take its default \<open>''\<close>\<close>
  "newFolderPath folderPath nm =
     (if folderPath \<noteq> [] then folderPath @ ''/'' @ show_undefined nm
      else case nm of None \<Rightarrow> [] | Some s \<Rightarrow> s)"

definition path_or_root :: "string \<Rightarrow> string" where
  \<comment> \<open>\<open>folderPath || 'Root'\<close>\<close>
  "path_or_root folderPath = (if folderPath \<noteq> [] then folderPath else ''Root'')"

definition leaf_record :: "env \<Rightarrow> bnode \<Rightarrow> string \<Rightarrow> bookmark" where
  "leaf_record e child folderPath =
     \<lparr>b_title = nname child, b_url = nurl child,
      b_dateAdded = date_of_added e (date_added child),
      b_folder = path_or_root folderPath\<rparr>"

fun extractBookmarks :: "env \<Rightarrow> bnode \<Rightarrow> string \<Rightarrow> bookmark list"
  and extract_children :: "env \<Rightarrow> bnode list \<Rightarrow> string \<Rightarrow> bookmark list" where
  "extractBookmarks e (BNode t n u d None) folderPath = []"
| "extractBookmarks e (BNode t n u d (Some cs)) folderPath = extract_children e cs folderPath"
| "extract_children e [] folderPath = []"
| "extract_children e (child # rest) folderPath =
     (if ntype child = Some ''url''
      then [leaf_record e child folderPath]
      else if ntype child = Some ''folder''
      then extractBookmarks e child (newFolderPath folderPath (nname child))
      else [])
     @ extract_children e rest folderPath"

definition folder_matches :: "string \<Rightarrow> bookmark \<Rightarrow> bool" where
  \<comment> \<open>\<open>bookmark.folder.toLowerCase().includes(targetFolder.toLowerCase())\<close>\<close>
  "folder_matches targetFolder b =
     js_includes (toLowerCase (b_folder b)) (toLowerCase targetFolder)"

definition root_bookmarks :: "env \<Rightarrow> string \<times> bnode \<Rightarrow> bookmark list" where
  "root_bookmarks e entry =
     (case entry of (rootName, rootData) \<Rightarrow>
        if children rootData \<noteq> None then extractBookmarks e rootData rootName else [])"

definition getBookmarks :: "env \<Rightarrow> string option \<Rightarrow> string + bookmark list" where
  \<comment> \<open>\<open>targetFolder\<close> is \<open>None\<close> for the default \<open>null\<close>\<close>
  "getBookmarks e targetFolder =
     (case bookmarks_file e of
        Inl msg \<Rightarrow> Inl msg
      | Inr roots \<Rightarrow>
          let allBookmarks =
                (case roots of None \<Rightarrow> [] | Some rs \<Rightarrow> concat (map (root_bookmarks e) rs))
          in Inr (case targetFolder of
                    None \<Rightarrow> allBookmarks
                  | Some t \<Rightarrow>
                      if t = [] then allBookmarks else filter (folder_matches t) allBookmarks))"

text \<open>
  The traversal said a second time, apart from the records it builds: the \<open>url\<close> leaves
  below a node in depth-first order, children in their stored order, each with the names
  of the folders on the way down to it; and the path that a list of folder names
  accumulates from a prefix.
\<close>

fun url_leaves :: "bnode \<Rightarrow> string option list \<Rightarrow> (string option list \<times> bnode) list"
  and url_leaves_of :: "bnode list \<Rightarrow> string option list \<Rightarrow> (string option list \<times> bnode) list" where
  "url_leaves (BNode t n u d None) names = []"
| "url_leaves (BNode t n u d (Some cs)) names = url_leaves_of cs names"
| "url_leaves_of [] names = []"
| "url_leaves_of (child # rest) names =
     (if ntype child = Some ''url'' then [(names, child)]
      else if ntype child = Some ''folder'' then url_leaves child (names @ [nname child])
      else [])
     @ url_leaves_of rest names"

definition accumulated_path :: "string \<Rightarrow> string option list \<Rightarrow> string" where
  "accumulated_path start names = foldl newFolderPath start names"

section \<open>A sample environment\<close>

text \<open>
  Concrete values for the parts of the environment that the program takes from its
  platform, used to run the definitions on examples. Dates are printed as the decimal
  number of seconds, and the only date strings known are two days of January 2024.
\<close>

definition sample_date_parse :: "string \<Rightarrow> int option" where
  "sample_date_parse s =
     (if s = ''2024-01-01T00:00:00'' then Some 1704067200000
      else if s = ''2024-01-01T23:59:59.999'' then Some 1704153599999
      else if s = ''2024-01-02T00:00:00'' then Some 1704153600000
      else if s = ''2024-01-02T23:59:59.999'' then Some 1704239999999
      else None)"

definition sample_env :: "store \<Rightarrow> env" where
  "sample_env st =
     \<lparr>now = 1704200000000,
      db = Inr st,
      bookmarks_file = Inl ''Chrome Bookmarks file not found. Make sure Chrome has been run at least once.'',
      date_parse = sample_date_parse,
      str_to_number = (\<lambda>s. None),
      sql_text_to_int = (\<lambda>s. None),
      url_hostname = (\<lambda>s. None),
      sql_datetime = (\<lambda>t. Some (show_int t)),
      to_locale_string = show_int,
      parse_int = (\<lambda>s. None)\<rparr>"

definition chrome_us :: "int \<Rightarrow> int" where
  \<comment> \<open>a time in Unix milliseconds as Chrome's microseconds since 1601\<close>
  "chrome_us ms = (ms - epoch_1601_ms) * 1000"

definition mk_url :: "int \<Rightarrow> string \<Rightarrow> string \<Rightarrow> int \<Rightarrow> int \<Rightarrow> url_row" where
  "mk_url i u t c ms =
     \<lparr>url_id = i, url = u, title = Some t, visit_count = c, last_visit_time = chrome_us ms\<rparr>"

definition no_store :: env where
  \<comment> \<open>the sample environment when no Chrome profile is found\<close>
  "no_store =
     (sample_env \<lparr>urls = [], visits = []\<rparr>)
       \<lparr>db := Inl ''Chrome installation not found.''\<rparr>"

definition idle_store :: store where
  \<comment> \<open>a history whose only URL was never visited\<close>
  "idle_store = \<lparr>urls = [mk_url 1 ''http://x.org/'' ''X'' 0 1704100000000], visits = []\<rparr>"

definition week_store :: store where
  \<comment> \<open>one URL with a visit 180 hours and a visit one hour before \<open>now\<close> of the sample\<close>
  "week_store =
     \<lparr>urls = [mk_url 1 ''http://x.org/'' ''X'' 2 1704196400000],
      visits = [\<lparr>visit_url = 1, visit_time = chrome_us 1703552000000\<rparr>,
                \<lparr>visit_url = 1, visit_time = chrome_us 1704196400000\<rparr>]\<rparr>"

definition recent_visit :: recent_entry where
  "recent_visit =
     \<lparr>e_url = ''http://x.org/'', e_title = ''X'', e_last_visit_date = Some ''1704196400'',
      e_visit_count = 2, e_domain = Some ''Unknown''\<rparr>"

definition old_visit :: recent_entry where
  "old_visit =
     \<lparr>e_url = ''http://x.org/'', e_title = ''X'', e_last_visit_date = Some ''1703552000'',
      e_visit_count = 2, e_domain = Some ''Unknown''\<rparr>"

definition spec_example_roots :: "(string \<times> bnode) list" where
  \<comment> \<open>the tree of the specification's bookmark example\<close>
  "spec_example_roots =
     [(''bookmark_bar'',
       BNode None None None None
         (Some [BNode (Some ''folder'') (Some ''Work'') None None
                  (Some [BNode (Some ''url'') (Some ''X'') (Some ''http://x'')
                           (Some ''13300000000000000'') None])]))]"

definition bookmarks_env :: "(string \<times> bnode) list \<Rightarrow> env" where
  \<comment> \<open>the sample environment with a Bookmarks file that has these roots\<close>
  "bookmarks_env roots =
     (sample_env \<lparr>urls = [], visits = []\<rparr>)
       \<lparr>bookmarks_file := Inr (Some roots),
        parse_int := (\<lambda>s. if s = ''13300000000000000'' then Some 13300000000000000 else None)\<rparr>"

definition url_node :: "string \<Rightarrow> string \<Rightarrow> bnode" where
  "url_node n u = BNode (Some ''url'') (Some n) (Some u) None None"

definition folder_node :: "string \<Rightarrow> bnode list \<Rightarrow> bnode" where
  "folder_node n cs = BNode (Some ''folder'') (Some n) None None (Some cs)"

definition two_folder_roots :: "(string \<times> bnode) list" where
  \<comment> \<open>a bookmark bar with one bookmark of its own and two folders, and an empty second root\<close>
  "two_folder_roots =
     [(''bookmark_bar'',
       BNode None None None None
         (Some [url_node ''A'' ''http://a'',
                folder_node ''Work'' [url_node ''X'' ''http://x''],
                folder_node ''Play'' [url_node ''Y'' ''http://y'']])),
      (''other'', BNode None None None None (Some []))]"

definition flat :: "string \<Rightarrow> string \<Rightarrow> string \<Rightarrow> bookmark" where
  "flat n u f = \<lparr>b_title = Some n, b_url = Some u, b_dateAdded = None, b_folder = f\<rparr>"

definition search_store :: store where
  \<comment> \<open>two URLs visited on 2024-01-01, the second one a millisecond later\<close>
  "search_store =
     \<lparr>urls = [mk_url 1 ''https://GitHub.com/a'' ''Code'' 3 1704100000000,
              mk_url 2 ''http://x.org/'' ''X'' 1 1704100000001],
      visits = []\<rparr>"

definition github_entry :: history_entry where
  "github_entry =
     \<lparr>h_url = ''https://GitHub.com/a'', h_title = Some ''Code'', h_visit_count = 3,
      h_last_visit_time = 13348573600000000, h_last_visit_date = Some ''1704100000''\<rparr>"

definition x_entry :: history_entry where
  "x_entry =
     \<lparr>h_url = ''http://x.org/'', h_title = Some ''X'', h_visit_count = 1,
      h_last_visit_time = 13348573600001000, h_last_visit_date = Some ''1704100000''\<rparr>"

definition many_store :: "nat \<Rightarrow> store" where
  \<comment> \<open>\<open>n\<close> URLs that all contain the letter \<open>a\<close>\<close>
  "many_store n =
     \<lparr>urls = map (\<lambda>i. mk_url (int i) ''http://a.example/'' ''A'' 1 (1704100000000 + int i)) [0..<n],
      visits = []\<rparr>"

definition no_dates :: "jsval \<Rightarrow> search_options" where
  "no_dates lim = \<lparr>startDate = JUndefined, endDate = JUndefined, limit = lim\<rparr>"

section \<open>The dispatcher: routing and results\<close>

lemma registered_names_eq:
  "registered_names =
     [''search_history'', ''get_bookmarks'', ''analyze_browsing_patterns'', ''export_data'',
      ''get_recent_browsing'', ''get_history_stats'']"
  by (simp add: registered_names_def listTools_def)

lemma callTool_search_history:
  "callTool e \<lparr>req_name = ''search_history'', req_arguments = a\<rparr>
   = (case search_history_tool e a of (r, calls) \<Rightarrow> (Inr r, calls))"
  by (simp add: callTool_def)

lemma callTool_get_bookmarks:
  "callTool e \<lparr>req_name = ''get_bookmarks'', req_arguments = a\<rparr> = (Inr get_bookmarks_tool, [])"
  by (simp add: callTool_def)

lemma callTool_analyze:
  "callTool e \<lparr>req_name = ''analyze_browsing_patterns'', req_arguments = a\<rparr>
   = (analyze_browsing_patterns_tool a, [])"
  by (simp add: callTool_def)

lemma callTool_export:
  "callTool e \<lparr>req_name = ''export_data'', req_arguments = a\<rparr> = (export_data_tool a, [])"
  by (simp add: callTool_def)

lemma callTool_recent:
  "callTool e \<lparr>req_name = ''get_recent_browsing'', req_arguments = a\<rparr>
   = (case get_recent_browsing_tool e a of (r, calls) \<Rightarrow> (Inr r, calls))"
  by (simp add: callTool_def)

lemma callTool_stats:
  "callTool e \<lparr>req_name = ''get_history_stats'', req_arguments = a\<rparr>
   = (case get_history_stats_tool e of (r, calls) \<Rightarrow> (Inr r, calls))"
  by (simp add: callTool_def)

lemma text_block: "content (text_result t) = [\<lparr>ctype = ''text'', ctext = t\<rparr>]"
  by (simp add: text_result_def)

lemma search_history_tool_text: "\<exists>t. fst (search_history_tool e a) = text_result t"
  by (cases a) (auto simp add: search_history_tool_def Let_def split: sum.splits)

lemma get_recent_browsing_tool_text: "\<exists>t. fst (get_recent_browsing_tool e a) = text_result t"
  by (cases a) (auto simp add: get_recent_browsing_tool_def Let_def split: sum.splits)

lemma get_history_stats_tool_text: "\<exists>t. fst (get_history_stats_tool e) = text_result t"
  by (auto simp add: get_history_stats_tool_def split: sum.splits)

lemma analyze_text: "\<exists>t. analyze_browsing_patterns_tool (Some m) = Inr (text_result t)"
  unfolding analyze_browsing_patterns_tool_def option.case by blast

lemma export_text: "\<exists>t. export_data_tool (Some m) = Inr (text_result t)"
  unfolding export_data_tool_def option.case by blast

lemma result_search_history:
  "\<exists>r t. fst (callTool e \<lparr>req_name = ''search_history'', req_arguments = Some m\<rparr>) = Inr r
        \<and> content r = [\<lparr>ctype = ''text'', ctext = t\<rparr>]"
proof -
  obtain t where "fst (search_history_tool e (Some m)) = text_result t"
    using search_history_tool_text by blast
  then show ?thesis
    unfolding callTool_search_history using text_block by (auto simp: case_prod_unfold)
qed

lemma result_get_bookmarks:
  "\<exists>r t. fst (callTool e \<lparr>req_name = ''get_bookmarks'', req_arguments = Some m\<rparr>) = Inr r
        \<and> content r = [\<lparr>ctype = ''text'', ctext = t\<rparr>]"
  unfolding callTool_get_bookmarks get_bookmarks_tool_def using text_block by auto

lemma result_analyze:
  "\<exists>r t. fst (callTool e \<lparr>req_name = ''analyze_browsing_patterns'', req_arguments = Some m\<rparr>) = Inr r
        \<and> content r = [\<lparr>ctype = ''text'', ctext = t\<rparr>]"
proof -
  obtain t where "analyze_browsing_patterns_tool (Some m) = Inr (text_result t)"
    using analyze_text by blast
  then show ?thesis
    unfolding callTool_analyze using text_block by auto
qed

lemma result_export:
  "\<exists>r t. fst (callTool e \<lparr>req_name = ''export_data'', req_arguments = Some m\<rparr>) = Inr r
        \<and> content r = [\<lparr>ctype = ''text'', ctext = t\<rparr>]"
proof -
  obtain t where "export_data_tool (Some m) = Inr (text_result t)"
    using export_text by blast
  then show ?thesis
    unfolding callTool_export using text_block by auto
qed

lemma result_recent:
  "\<exists>r t. fst (callTool e \<lparr>req_name = ''get_recent_browsing'', req_arguments = Some m\<rparr>) = Inr r
        \<and> content r = [\<lparr>ctype = ''text'', ctext = t\<rparr>]"
proof -
  obtain t where "fst (get_recent_browsing_tool e (Some m)) = text_result t"
    using get_recent_browsing_tool_text by blast
  then show ?thesis
    unfolding callTool_recent using text_block by (auto simp: case_prod_unfold)
qed

lemma result_stats:
  "\<exists>r t. fst (callTool e \<lparr>req_name = ''get_history_stats'', req_arguments = Some m\<rparr>) = Inr r
        \<and> content r = [\<lparr>ctype = ''text'', ctext = t\<rparr>]"
proof -
  obtain t where "fst (get_history_stats_tool e) = text_result t"
    using get_history_stats_tool_text by blast
  then show ?thesis
    unfolding callTool_stats using text_block by (auto simp: case_prod_unfold)
qed

text \<open>
  C1. A request whose name is not one of the six names of the registry ends in the
  \<open>MethodNotFound\<close> fault: the outcome is \<open>Inl\<close>, not a tool result, and the Data Provider
  is not called.
\<close>

theorem callTool_unknown_name:
  "req_name request \<notin> set registered_names \<Longrightarrow>
   callTool e request = (Inl (MethodNotFound (''Unknown tool: '' @ req_name request)), [])"
  by (simp add: callTool_def registered_names_eq)

theorem callTool_unknown_name_witness:
  "''delete_history'' \<notin> set registered_names
   \<and> callTool no_store \<lparr>req_name = ''delete_history'', req_arguments = Some Map.empty\<rparr>
     = (Inl (MethodNotFound ''Unknown tool: delete_history''), [])"
  using callTool_unknown_name
    [of "\<lparr>req_name = ''delete_history'', req_arguments = Some Map.empty\<rparr>" no_store]
  by (simp add: registered_names_eq)

text \<open>
  C2. For each of the six registered names and every arguments object that is present
  (the empty object included), in every environment (a failing history database
  included), the outcome is a tool result whose content is one text block; it is never a
  fault.
\<close>

theorem callTool_registered_returns_result:
  assumes "name \<in> set registered_names"
  shows "\<exists>r t. fst (callTool e \<lparr>req_name = name, req_arguments = Some m\<rparr>) = Inr r
        \<and> content r = [\<lparr>ctype = ''text'', ctext = t\<rparr>]"
proof -
  from assms have
    "name = ''search_history'' \<or> name = ''get_bookmarks''
     \<or> name = ''analyze_browsing_patterns'' \<or> name = ''export_data''
     \<or> name = ''get_recent_browsing'' \<or> name = ''get_history_stats''"
    by (simp only: registered_names_eq list.set insert_iff empty_iff simp_thms)
  then show ?thesis
    by (elim disjE)
       (simp_all only: result_search_history result_get_bookmarks result_analyze result_export
          result_recent result_stats)
qed

theorem callTool_registered_returns_result_witness:
  "''get_recent_browsing'' \<in> set registered_names
   \<and> (\<exists>r t. fst (callTool no_store
                  \<lparr>req_name = ''get_recent_browsing'', req_arguments = Some Map.empty\<rparr>) = Inr r
          \<and> content r = [\<lparr>ctype = ''text'', ctext = t\<rparr>])"
  using callTool_registered_returns_result [of "''get_recent_browsing''" no_store Map.empty]
  by (simp add: registered_names_eq)

text \<open>
  C3. When \<open>query\<close> is absent or the empty string and \<open>start_date\<close> and \<open>end_date\<close> are
  absent, \<open>search_history\<close> answers with the text that asks for a query or a date range,
  as a tool result, and the list of Data Provider calls is empty.
\<close>

theorem search_history_requires_query_or_dates:
  assumes "m ''query'' = None \<or> m ''query'' = Some (JStr [])"
    and "m ''start_date'' = None" and "m ''end_date'' = None"
  shows "callTool e \<lparr>req_name = ''search_history'', req_arguments = Some m\<rparr>
         = (Inr (text_result query_required_text), [])"
  using assms
  unfolding callTool_search_history
  by (auto simp add: search_history_tool_def get_prop_def js_or_def Let_def)

theorem search_history_requires_query_or_dates_witness:
  "callTool no_store
     \<lparr>req_name = ''search_history'', req_arguments = Some [''query'' \<mapsto> JStr [], ''limit'' \<mapsto> JNum 10]\<rparr>
   = (Inr \<lparr>content =
            [\<lparr>ctype = ''text'',
              ctext = ''Error: Please provide either a search query or a date range (or both)''\<rparr>]\<rparr>,
      [])"
  using search_history_requires_query_or_dates
    [of "[''query'' \<mapsto> JStr [], ''limit'' \<mapsto> JNum 10]" no_store]
  by (simp add: text_result_def query_required_text_def)

text \<open>
  C10. With the arguments object absent, \<open>analyze_browsing_patterns\<close> and \<open>export_data\<close>
  end in an uncaught TypeError (a fault, no tool result), while \<open>search_history\<close>,
  \<open>get_recent_browsing\<close>, \<open>get_bookmarks\<close> and \<open>get_history_stats\<close> return a tool result.
\<close>

theorem absent_arguments_outcomes:
  "fst (callTool e \<lparr>req_name = ''analyze_browsing_patterns'', req_arguments = None\<rparr>)
     = Inl (TypeError (undefined_read ''timeframe''))
   \<and> fst (callTool e \<lparr>req_name = ''export_data'', req_arguments = None\<rparr>)
     = Inl (TypeError (undefined_read ''format''))
   \<and> fst (callTool e \<lparr>req_name = ''search_history'', req_arguments = None\<rparr>)
     = Inr (text_result (search_error_text (undefined_read ''query'')))
   \<and> fst (callTool e \<lparr>req_name = ''get_recent_browsing'', req_arguments = None\<rparr>)
     = Inr (text_result (recent_error_text (undefined_read ''hours'')))
   \<and> fst (callTool e \<lparr>req_name = ''get_bookmarks'', req_arguments = None\<rparr>)
     = Inr get_bookmarks_tool
   \<and> (\<exists>t. fst (callTool e \<lparr>req_name = ''get_history_stats'', req_arguments = None\<rparr>)
          = Inr (text_result t))"
proof -
  obtain t where "fst (get_history_stats_tool e) = text_result t"
    using get_history_stats_tool_text by blast
  then have "\<exists>t. fst (callTool e \<lparr>req_name = ''get_history_stats'', req_arguments = None\<rparr>)
          = Inr (text_result t)"
    unfolding callTool_stats by (auto simp: case_prod_unfold)
  then show ?thesis
    unfolding callTool_analyze callTool_export callTool_search_history callTool_recent
      callTool_get_bookmarks
    by (simp add: analyze_browsing_patterns_tool_def export_data_tool_def
          search_history_tool_def get_recent_browsing_tool_def)
qed


theorem absent_arguments_outcomes_witness:
  "fst (callTool no_store \<lparr>req_name = ''export_data'', req_arguments = None\<rparr>)
     = Inl (TypeError (''Cannot read properties of undefined (reading '' @ SQ @ ''format'' @ SQ @ '')''))
   \<and> fst (callTool no_store \<lparr>req_name = ''get_bookmarks'', req_arguments = None\<rparr>)
     = Inr get_bookmarks_tool"
  using absent_arguments_outcomes [of no_store]
  by (simp add: undefined_read_def)


section \<open>Running the model on examples\<close>

lemma show_nat_numeral [simp]:
  "show_nat (numeral k) =
     (if (numeral k :: nat) < 10 then [''0123456789'' ! numeral k]
      else show_nat (numeral k div 10) @ [''0123456789'' ! (numeral k mod 10)])"
  by (rule show_nat.simps)

lemma show_nat_0 [simp]: "show_nat 0 = ''0''"
  by (simp add: show_nat.simps)

lemma show_nat_1 [simp]: "show_nat 1 = ''1''" "show_nat (Suc 0) = ''1''"
  by (simp_all add: show_nat.simps)

lemma sample_fields:
  "db (sample_env st) = Inr st"
  "now (sample_env st) = 1704200000000"
  "date_parse (sample_env st) = sample_date_parse"
  "str_to_number (sample_env st) = (\<lambda>s. None)"
  "sql_text_to_int (sample_env st) = (\<lambda>s. None)"
  "url_hostname (sample_env st) = (\<lambda>s. None)"
  "sql_datetime (sample_env st) = (\<lambda>t. Some (show_int t))"
  "to_locale_string (sample_env st) = show_int"
  "parse_int (sample_env st) = (\<lambda>s. None)"
  by (simp_all add: sample_env_def)

lemmas recent_eval =
  getRecentBrowsing_def queryHistory_def recent_sql_def join_visits_def select_recent_def
  process_recent_def chromeTimestamp_def hoursAgo_def time_clip_def epoch_1601_ms_def
  ge_param_def sql_limit_def chrome_datetime_def chrome_secs_def tdiv_def title_or_untitled_def
  sample_fields mk_url_def chrome_us_def show_int_def

lemma week_200:
  "getRecentBrowsing (sample_env week_store) (JNum 200) (JNum 50) True
   = Inr [recent_visit, old_visit]"
  by (simp add: recent_eval week_store_def recent_visit_def old_visit_def)

lemma week_168:
  "getRecentBrowsing (sample_env week_store) (JNum 168) (JNum 50) True = Inr [recent_visit]"
  by (simp add: recent_eval week_store_def recent_visit_def)

section \<open>History statistics\<close>

lemma stats_sql_no_visited:
  assumes "\<forall>r \<in> set (urls st). visit_count r \<le> 0"
  shows "stats_sql e st
         = Inr [\<lparr>total_urls = 0, total_visits = None, earliest_visit = None,
                 latest_visit = None\<rparr>]"
proof -
  have rows: "filter (\<lambda>r. visit_count r > 0) (urls st) = []"
    using assms by (auto simp: filter_empty_conv)
  show ?thesis
    unfolding stats_sql_def rows Let_def
    by (simp add: sql_sum_def sql_min_def sql_max_def non_null_def)
qed

text \<open>
  C9. On a store that opens and has no row with \<open>visit_count > 0\<close>, \<open>getHistoryStats\<close>
  returns a value (it does not reject): \<open>total_urls\<close> is 0, and \<open>earliest_visit\<close> and
  \<open>latest_visit\<close> are \<open>null\<close> (so is \<open>total_visits\<close>).
\<close>

theorem getHistoryStats_empty_store:
  assumes "db e = Inr st" and "\<forall>r \<in> set (urls st). visit_count r \<le> 0"
  shows "getHistoryStats e
         = Inr (Some \<lparr>total_urls = 0, total_visits = None, earliest_visit = None,
                      latest_visit = None\<rparr>)"
  unfolding getHistoryStats_def queryHistory_def assms(1)
  by (simp add: stats_sql_no_visited [OF assms(2)])

theorem getHistoryStats_empty_store_witness:
  "getHistoryStats (sample_env idle_store)
   = Inr (Some \<lparr>total_urls = 0, total_visits = None, earliest_visit = None,
                latest_visit = None\<rparr>)"
  using getHistoryStats_empty_store [of "sample_env idle_store" idle_store]
  by (simp add: sample_fields idle_store_def mk_url_def)

text \<open>
  The \<open>get_history_stats\<close> handler on such a store: \<open>stats.total_visits\<close> is \<open>null\<close>, reading
  \<open>toLocaleString\<close> on it throws inside the \<open>try\<close>, and the result is the error text.
\<close>

lemma get_history_stats_tool_empty_store:
  assumes "db e = Inr st" and "\<forall>r \<in> set (urls st). visit_count r \<le> 0"
  shows "get_history_stats_tool e
         = (text_result (stats_error_text (null_read ''toLocaleString'')), [GetHistoryStatsCall])"
proof -
  have "getHistoryStats e
         = Inr (Some \<lparr>total_urls = 0, total_visits = None, earliest_visit = None,
                      latest_visit = None\<rparr>)"
    unfolding getHistoryStats_def queryHistory_def assms(1)
    by (simp add: stats_sql_no_visited [OF assms(2)])
  then show ?thesis
    unfolding get_history_stats_tool_def by (simp add: format_stats_def)
qed

section \<open>Recent browsing\<close>

lemma set_sql_limit: "set (sql_limit n xs) \<subseteq> set xs"
  by (auto simp: sql_limit_def dest: in_set_takeD)

lemma in_join_visits:
  "(u, v) \<in> set (join_visits st) \<Longrightarrow>
   u \<in> set (urls st) \<and> v \<in> set (visits st) \<and> url_id u = visit_url v"
  by (auto simp: join_visits_def)

lemma ge_param_bound:
  "ge_param t (chromeTimestamp e hours) \<Longrightarrow>
   \<exists>h. to_number e hours = Some h \<and> (now e - h * 60 * 60 * 1000 - epoch_1601_ms) * 1000 \<le> t"
  by (auto simp: ge_param_def chromeTimestamp_def hoursAgo_def time_clip_def
        split: option.splits if_splits)

text \<open>
  C6. Every entry that \<open>getRecentBrowsing\<close> returns comes from a visit row joined to its
  URL row; \<open>hours\<close> (24 when it is left out) is a number \<open>h\<close>, and the time of that visit
  is at or after \<open>now\<close> minus \<open>h\<close> hours (in microseconds since 1601); and the date the
  entry reports is the date of that visit, not the date of the URL's \<open>last_visit_time\<close>.
\<close>

theorem recent_browsing_visits_in_window:
  assumes "getRecentBrowsing e hours lim det = Inr res"
  shows "\<exists>st rows. db e = Inr st \<and>
           list_all2 (\<lambda>entry uv.
                fst uv \<in> set (urls st) \<and> snd uv \<in> set (visits st)
                \<and> url_id (fst uv) = visit_url (snd uv)
                \<and> e_url entry = url (fst uv)
                \<and> (\<exists>h. to_number e (if hours = JUndefined then JNum 24 else hours) = Some h
                       \<and> (now e - h * 60 * 60 * 1000 - epoch_1601_ms) * 1000
                           \<le> visit_time (snd uv))
                \<and> e_last_visit_date entry = chrome_datetime e (visit_time (snd uv)))
             res rows"
proof -
  from assms obtain st where st: "db e = Inr st"
    by (cases "db e") (simp_all add: getRecentBrowsing_def queryHistory_def)
  let ?hours = "if hours = JUndefined then JNum 24 else hours"
  let ?ts = "chromeTimestamp e ?hours"
  from assms st obtain n where n: "bind_limit e (if lim = JUndefined then JNum 50 else lim) = Inr n"
    by (cases "bind_limit e (if lim = JUndefined then JNum 50 else lim)")
       (simp_all add: getRecentBrowsing_def queryHistory_def recent_sql_def Let_def)
  define rows where
    "rows = sql_limit n (sort_key (\<lambda>uv. - visit_time (snd uv))
              (filter (\<lambda>uv. ge_param (visit_time (snd uv)) ?ts) (join_visits st)))"
  have res: "res = map (process_recent e det) (map (select_recent e) rows)"
    using assms n
    by (simp add: getRecentBrowsing_def queryHistory_def st recent_sql_def rows_def Let_def)
  have "\<forall>uv \<in> set rows. uv \<in> set (join_visits st) \<and> ge_param (visit_time (snd uv)) ?ts"
    unfolding rows_def using set_sql_limit by fastforce
  then have "\<forall>uv \<in> set rows.
      fst uv \<in> set (urls st) \<and> snd uv \<in> set (visits st)
      \<and> url_id (fst uv) = visit_url (snd uv)
      \<and> (\<exists>h. to_number e ?hours = Some h
             \<and> (now e - h * 60 * 60 * 1000 - epoch_1601_ms) * 1000 \<le> visit_time (snd uv))"
    using in_join_visits ge_param_bound by (metis prod.collapse)
  then have "list_all2 (\<lambda>entry uv.
                fst uv \<in> set (urls st) \<and> snd uv \<in> set (visits st)
                \<and> url_id (fst uv) = visit_url (snd uv)
                \<and> e_url entry = url (fst uv)
                \<and> (\<exists>h. to_number e ?hours = Some h
                       \<and> (now e - h * 60 * 60 * 1000 - epoch_1601_ms) * 1000
                           \<le> visit_time (snd uv))
                \<and> e_last_visit_date entry = chrome_datetime e (visit_time (snd uv)))
             res rows"
    unfolding res list_all2_map1
    by (auto simp: list_all2_same process_recent_def select_recent_def split: prod.splits)
  with st show ?thesis by blast
qed

theorem recent_browsing_visits_in_window_witness:
  "getRecentBrowsing (sample_env week_store) (JNum 200) (JNum 50) True
     = Inr [recent_visit, old_visit]
   \<and> (\<exists>st rows. db (sample_env week_store) = Inr st \<and>
           list_all2 (\<lambda>entry uv.
                fst uv \<in> set (urls st) \<and> snd uv \<in> set (visits st)
                \<and> url_id (fst uv) = visit_url (snd uv)
                \<and> e_url entry = url (fst uv)
                \<and> (\<exists>h. to_number (sample_env week_store)
                            (if JNum 200 = JUndefined then JNum 24 else JNum 200) = Some h
                       \<and> (now (sample_env week_store) - h * 60 * 60 * 1000 - epoch_1601_ms) * 1000
                           \<le> visit_time (snd uv))
                \<and> e_last_visit_date entry
                    = chrome_datetime (sample_env week_store) (visit_time (snd uv)))
             [recent_visit, old_visit] rows)"
  by (rule conjI [OF week_200 recent_browsing_visits_in_window [OF week_200]])

lemma get_recent_browsing_tool_number:
  assumes "m ''hours'' = Some (JNum h)" and "h \<noteq> 0"
  shows "get_recent_browsing_tool e (Some m)
         = (let lim = js_or (get_prop m ''limit'') (JNum 50);
                det = (get_prop m ''include_visit_details'' \<noteq> JBool False)
            in (text_result
                  (case getRecentBrowsing e (JNum h) lim det of
                     Inl msg \<Rightarrow> recent_error_text msg
                   | Inr rs \<Rightarrow> format_recent (JNum h) lim det rs),
                [GetRecentBrowsingCall (JNum h) lim det]))"
proof -
  have "js_or (get_prop m ''hours'') (JNum 24) = JNum h"
    using assms by (simp add: get_prop_def js_or_def)
  then show ?thesis
    by (simp add: get_recent_browsing_tool_def Let_def split: sum.splits)
qed

lemma week_200_tool:
  "get_recent_browsing_tool (sample_env week_store) (Some [''hours'' \<mapsto> JNum 200])
   = (text_result (format_recent (JNum 200) (JNum 50) True [recent_visit, old_visit]),
      [GetRecentBrowsingCall (JNum 200) (JNum 50) True])"
proof -
  have "get_recent_browsing_tool (sample_env week_store) (Some [''hours'' \<mapsto> JNum 200])
        = (let lim = js_or (get_prop [''hours'' \<mapsto> JNum 200] ''limit'') (JNum 50);
               det = (get_prop [''hours'' \<mapsto> JNum 200] ''include_visit_details'' \<noteq> JBool False)
           in (text_result
                 (case getRecentBrowsing (sample_env week_store) (JNum 200) lim det of
                    Inl msg \<Rightarrow> recent_error_text msg
                  | Inr rs \<Rightarrow> format_recent (JNum 200) lim det rs),
               [GetRecentBrowsingCall (JNum 200) lim det]))"
    by (rule get_recent_browsing_tool_number [where h = 200]) simp_all
  then show ?thesis
    by (simp add: get_prop_def js_or_def week_200 Let_def)
qed

text \<open>
  C7, as the code has it. The handler does not compare \<open>hours\<close> with the bound of the
  schema: a number other than 0 is handed to the Data Provider unchanged, and the query
  looks back that many hours. The call is neither rejected nor clamped.
\<close>

theorem get_recent_browsing_hours_unchecked:
  assumes "m ''hours'' = Some (JNum h)" and "h \<noteq> 0"
  shows "\<exists>lim det.
           callTool e \<lparr>req_name = ''get_recent_browsing'', req_arguments = Some m\<rparr>
           = (Inr (text_result
                     (case getRecentBrowsing e (JNum h) lim det of
                        Inl msg \<Rightarrow> recent_error_text msg
                      | Inr rs \<Rightarrow> format_recent (JNum h) lim det rs)),
              [GetRecentBrowsingCall (JNum h) lim det])
           \<and> chromeTimestamp e (JNum h)
             = map_option (\<lambda>t. (t - epoch_1601_ms) * 1000) (time_clip (now e - h * 60 * 60 * 1000))"
  unfolding callTool_recent get_recent_browsing_tool_number [where m = m and h = h, OF assms]
  by (simp add: Let_def chromeTimestamp_def hoursAgo_def)

theorem get_recent_browsing_hours_unchecked_witness:
  "\<exists>lim det.
     callTool (sample_env week_store)
       \<lparr>req_name = ''get_recent_browsing'', req_arguments = Some [''hours'' \<mapsto> JNum 200]\<rparr>
     = (Inr (text_result
               (case getRecentBrowsing (sample_env week_store) (JNum 200) lim det of
                  Inl msg \<Rightarrow> recent_error_text msg
                | Inr rs \<Rightarrow> format_recent (JNum 200) lim det rs)),
        [GetRecentBrowsingCall (JNum 200) lim det])
     \<and> chromeTimestamp (sample_env week_store) (JNum 200)
       = map_option (\<lambda>t. (t - epoch_1601_ms) * 1000)
           (time_clip (now (sample_env week_store) - 200 * 60 * 60 * 1000))"
  by (rule get_recent_browsing_hours_unchecked [where h = 200]) simp_all

text \<open>
  C7, as the claim states it, fails: with \<open>hours = 200\<close> the Data Provider is called with
  200, the answer lists the visit made 180 hours ago, and the same store asked for 168
  hours does not return that visit.
\<close>

theorem hours_200_counterexample:
  "callTool (sample_env week_store)
     \<lparr>req_name = ''get_recent_browsing'', req_arguments = Some [''hours'' \<mapsto> JNum 200]\<rparr>
   = (Inr (text_result (format_recent (JNum 200) (JNum 50) True [recent_visit, old_visit])),
      [GetRecentBrowsingCall (JNum 200) (JNum 50) True])
   \<and> getRecentBrowsing (sample_env week_store) (JNum 200) (JNum 50) True
     = Inr [recent_visit, old_visit]
   \<and> getRecentBrowsing (sample_env week_store) (JNum 168) (JNum 50) True = Inr [recent_visit]"
  unfolding callTool_recent week_200_tool week_200 week_168 by simp


section \<open>Bookmarks\<close>

lemma starts_with_prefix: "starts_with s t = prefix t s"
  by (induction s t rule: starts_with.induct) auto

lemma js_includes_sublist: "js_includes s t = sublist t s"
proof (induction s)
  case Nil
  then show ?case by simp
next
  case (Cons d s)
  show ?case
  proof (cases t)
    case Nil
    then show ?thesis by simp
  next
    case (Cons c t')
    then show ?thesis
      using Cons.IH by (simp add: starts_with_prefix sublist_Cons_right del: starts_with.simps)
  qed
qed

lemma accumulated_path_snoc:
  "accumulated_path p (ns @ [n]) = newFolderPath (accumulated_path p ns) n"
  by (simp add: accumulated_path_def)

lemma extract_as_leaves:
  "extractBookmarks e node (accumulated_path p ns)
   = map (\<lambda>nc. leaf_record e (snd nc) (accumulated_path p (fst nc))) (url_leaves node ns)"
  "extract_children e cs (accumulated_path p ns)
   = map (\<lambda>nc. leaf_record e (snd nc) (accumulated_path p (fst nc))) (url_leaves_of cs ns)"
proof (induction node ns and cs ns rule: url_leaves_url_leaves_of.induct)
  case (4 child rest names)
  then show ?case
    by (simp add: accumulated_path_snoc)
qed simp_all

lemma extract_from_prefix:
  "extractBookmarks e node p
   = map (\<lambda>nc. leaf_record e (snd nc) (accumulated_path p (fst nc))) (url_leaves node [])"
  using extract_as_leaves(1) [of e node p "[]"] by (simp add: accumulated_path_def)

lemma root_bookmarks_as_leaves:
  "root_bookmarks e rd
   = map (\<lambda>nc. leaf_record e (snd nc) (accumulated_path (fst rd) (fst nc)))
       (url_leaves (snd rd) [])"
proof (cases rd)
  case (Pair rootName rootData)
  show ?thesis
  proof (cases rootData)
    case (BNode t n u d cs)
    then show ?thesis
      using Pair extract_from_prefix [of e rootData rootName]
      by (cases cs) (simp_all add: root_bookmarks_def)
  qed
qed

lemma spec_example_bookmarks:
  "getBookmarks (bookmarks_env spec_example_roots) None
   = Inr [\<lparr>b_title = Some ''X'', b_url = Some ''http://x'',
           b_dateAdded = Some 13300000000000, b_folder = ''bookmark_bar/Work''\<rparr>]"
  by (simp add: getBookmarks_def bookmarks_env_def spec_example_roots_def root_bookmarks_def
       leaf_record_def path_or_root_def newFolderPath_def show_undefined_def date_of_added_def
       time_clip_def tdiv_def)

text \<open>
  C8. \<open>extractBookmarks\<close> lists the \<open>url\<close> leaves below a node depth-first, children in
  their stored order, and gives each the path accumulated from the prefix and the names of
  the folders above it (\<open>Root\<close> when that path is empty); \<open>getBookmarks\<close> does so for
  every root in turn, with the root's key as the prefix. On the tree of the
  specification's example it yields the one record with folder \<open>bookmark_bar/Work\<close>, title
  \<open>X\<close> and url \<open>http://x\<close>. A non-empty \<open>folder\<close> argument keeps the records whose path,
  in lower case, has the argument, in lower case, as a substring.
\<close>

theorem getBookmarks_flattens:
  assumes "bookmarks_file e = Inr (Some rs)"
  shows "extractBookmarks e node p
           = map (\<lambda>nc. leaf_record e (snd nc) (accumulated_path p (fst nc))) (url_leaves node [])
         \<and> b_folder (leaf_record e child []) = ''Root''
         \<and> getBookmarks e None
           = Inr (concat (map (\<lambda>rd. map (\<lambda>nc. leaf_record e (snd nc)
                                              (accumulated_path (fst rd) (fst nc)))
                                    (url_leaves (snd rd) [])) rs))
         \<and> getBookmarks (bookmarks_env spec_example_roots) None
           = Inr [\<lparr>b_title = Some ''X'', b_url = Some ''http://x'',
                   b_dateAdded = Some 13300000000000, b_folder = ''bookmark_bar/Work''\<rparr>]
         \<and> (t \<noteq> [] \<longrightarrow>
              getBookmarks e (Some t)
              = Inr (filter (\<lambda>b. sublist (toLowerCase t) (toLowerCase (b_folder b)))
                       (concat (map (\<lambda>rd. map (\<lambda>nc. leaf_record e (snd nc)
                                                    (accumulated_path (fst rd) (fst nc)))
                                          (url_leaves (snd rd) [])) rs))))"
proof -
  have roots: "map (root_bookmarks e) rs
               = map (\<lambda>rd. map (\<lambda>nc. leaf_record e (snd nc) (accumulated_path (fst rd) (fst nc)))
                             (url_leaves (snd rd) [])) rs"
    by (simp add: root_bookmarks_as_leaves)
  have all: "getBookmarks e None = Inr (concat (map (root_bookmarks e) rs))"
    unfolding getBookmarks_def assms by simp
  have matches: "folder_matches t = (\<lambda>b. sublist (toLowerCase t) (toLowerCase (b_folder b)))"
    by (rule ext) (simp add: folder_matches_def js_includes_sublist)
  have some: "t \<noteq> [] \<Longrightarrow>
              getBookmarks e (Some t) = Inr (filter (folder_matches t) (concat (map (root_bookmarks e) rs)))"
    unfolding getBookmarks_def assms by simp
  have root: "b_folder (leaf_record e child []) = ''Root''"
    by (simp add: leaf_record_def path_or_root_def)
  show ?thesis
    using extract_from_prefix [of e node p] root all some spec_example_bookmarks
    unfolding roots matches by blast
qed


theorem getBookmarks_flattens_witness:
  "bookmarks_file (bookmarks_env two_folder_roots) = Inr (Some two_folder_roots)
   \<and> getBookmarks (bookmarks_env two_folder_roots) None
     = Inr [flat ''A'' ''http://a'' ''bookmark_bar'',
            flat ''X'' ''http://x'' ''bookmark_bar/Work'',
            flat ''Y'' ''http://y'' ''bookmark_bar/Play'']
   \<and> getBookmarks (bookmarks_env two_folder_roots) (Some ''WORK'')
     = Inr [flat ''X'' ''http://x'' ''bookmark_bar/Work'']
   \<and> extractBookmarks (bookmarks_env two_folder_roots)
       (folder_node ''top'' [url_node ''A'' ''http://a'']) []
     = [flat ''A'' ''http://a'' ''Root'']"
proof -
  have bfile: "bookmarks_file (bookmarks_env two_folder_roots) = Inr (Some two_folder_roots)"
    by (simp add: bookmarks_env_def)
  have roots:
    "map (\<lambda>rd. map (\<lambda>nc. leaf_record (bookmarks_env two_folder_roots) (snd nc)
                          (accumulated_path (fst rd) (fst nc)))
                (url_leaves (snd rd) [])) two_folder_roots
     = [[flat ''A'' ''http://a'' ''bookmark_bar'',
         flat ''X'' ''http://x'' ''bookmark_bar/Work'',
         flat ''Y'' ''http://y'' ''bookmark_bar/Play''], []]"
    by (simp add: two_folder_roots_def url_node_def folder_node_def flat_def leaf_record_def
          accumulated_path_def newFolderPath_def show_undefined_def path_or_root_def
          date_of_added_def)
  have top:
    "map (\<lambda>nc. leaf_record (bookmarks_env two_folder_roots) (snd nc) (accumulated_path [] (fst nc)))
       (url_leaves (folder_node ''top'' [url_node ''A'' ''http://a'']) [])
     = [flat ''A'' ''http://a'' ''Root'']"
    by (simp add: url_node_def folder_node_def flat_def leaf_record_def
          accumulated_path_def path_or_root_def date_of_added_def)
  have lower: "toLowerCase ''WORK'' = ''work''"
    "toLowerCase ''bookmark_bar'' = ''bookmark_bar''"
    "toLowerCase ''bookmark_bar/Work'' = ''bookmark_bar/work''"
    "toLowerCase ''bookmark_bar/Play'' = ''bookmark_bar/play''"
    by (simp_all add: toLowerCase_def lower_char_def)
  have subs: "\<not> sublist ''work'' ''bookmark_bar''" "sublist ''work'' ''bookmark_bar/work''"
    "\<not> sublist ''work'' ''bookmark_bar/play''"
    by (simp_all add: sublist_code prefix_code)
  show ?thesis
    using getBookmarks_flattens
      [OF bfile, of "folder_node ''top'' [url_node ''A'' ''http://a'']" "[]" "url_node ''A'' ''http://a''"
         "''WORK''"]
    unfolding roots top
    by (simp add: bfile flat_def lower subs)
qed


section \<open>Searching the history\<close>

lemma like_any: "like ''%'' s"
  by (induction s) auto

lemma like_percent: "like (CHR ''%'' # p) s \<longleftrightarrow> (\<exists>s1 s2. s = s1 @ s2 \<and> like p s2)"
proof (induction s)
  case Nil
  then show ?case by (cases p) auto
next
  case (Cons c s)
  show ?case
  proof
    assume "like (CHR ''%'' # p) (c # s)"
    then consider "like p (c # s)" | "like (CHR ''%'' # p) s" by auto
    then show "\<exists>s1 s2. c # s = s1 @ s2 \<and> like p s2"
    proof cases
      case 1
      then have "c # s = [] @ (c # s) \<and> like p (c # s)" by simp
      then show ?thesis by blast
    next
      case 2
      then obtain s1 s2 where "s = s1 @ s2" "like p s2" using Cons.IH by blast
      then have "c # s = (c # s1) @ s2 \<and> like p s2" by simp
      then show ?thesis by blast
    qed
  next
    assume "\<exists>s1 s2. c # s = s1 @ s2 \<and> like p s2"
    then obtain s1 s2 where s: "c # s = s1 @ s2" "like p s2" by blast
    show "like (CHR ''%'' # p) (c # s)"
    proof (cases s1)
      case Nil
      then show ?thesis using s by auto
    next
      case (Cons d s1')
      then have "s = s1' @ s2" using s by auto
      then have "like (CHR ''%'' # p) s" using Cons.IH s(2) by blast
      then show ?thesis by simp
    qed
  qed
qed

lemma like_literal:
  assumes "CHR ''%'' \<notin> set q" and "CHR ''_'' \<notin> set q"
  shows "like (q @ p) s \<longleftrightarrow>
         (\<exists>s1 s2. s = s1 @ s2 \<and> map lower_char s1 = map lower_char q \<and> like p s2)"
  using assms
proof (induction q arbitrary: s)
  case Nil
  then show ?case by simp
next
  case (Cons c q)
  then have c: "c \<noteq> CHR ''%''" "c \<noteq> CHR ''_''" and q: "CHR ''%'' \<notin> set q" "CHR ''_'' \<notin> set q"
    by auto
  show ?case
  proof (cases s)
    case Nil
    then show ?thesis using c by simp
  next
    case (Cons d s')
    have "like ((c # q) @ p) (d # s') \<longleftrightarrow> lower_char c = lower_char d \<and> like (q @ p) s'"
      using c by simp
    also have "\<dots> \<longleftrightarrow> lower_char c = lower_char d \<and>
        (\<exists>s1 s2. s' = s1 @ s2 \<and> map lower_char s1 = map lower_char q \<and> like p s2)"
      using Cons.IH [OF q] by simp
    also have "\<dots> \<longleftrightarrow>
        (\<exists>s1 s2. d # s' = s1 @ s2 \<and> map lower_char s1 = map lower_char (c # q) \<and> like p s2)"
    proof
      assume "lower_char c = lower_char d \<and>
        (\<exists>s1 s2. s' = s1 @ s2 \<and> map lower_char s1 = map lower_char q \<and> like p s2)"
      then obtain s1 s2 where "lower_char c = lower_char d" "s' = s1 @ s2"
        "map lower_char s1 = map lower_char q" "like p s2" by blast
      then show "\<exists>s1 s2. d # s' = s1 @ s2 \<and> map lower_char s1 = map lower_char (c # q) \<and> like p s2"
        by (intro exI [of _ "d # s1"] exI [of _ s2]) auto
    next
      assume "\<exists>s1 s2. d # s' = s1 @ s2 \<and> map lower_char s1 = map lower_char (c # q) \<and> like p s2"
      then obtain s1 s2 where s: "d # s' = s1 @ s2" "map lower_char s1 = map lower_char (c # q)"
        "like p s2" by blast
      then obtain s1' where "s1 = d # s1'" by (cases s1) auto
      then show "lower_char c = lower_char d \<and>
        (\<exists>s1 s2. s' = s1 @ s2 \<and> map lower_char s1 = map lower_char q \<and> like p s2)"
        using s by auto
    qed
    finally show ?thesis using Cons by simp
  qed
qed

lemma like_contains:
  assumes "CHR ''%'' \<notin> set q" and "CHR ''_'' \<notin> set q"
  shows "like (''%'' @ q @ ''%'') s \<longleftrightarrow> sublist (toLowerCase q) (toLowerCase s)"
proof -
  have "like (''%'' @ q @ ''%'') s \<longleftrightarrow> (\<exists>a r. s = a @ r \<and> like (q @ ''%'') r)"
    using like_percent [of "q @ ''%''" s] by simp
  also have "\<dots> \<longleftrightarrow> (\<exists>a b c. s = a @ b @ c \<and> map lower_char b = map lower_char q)"
    using like_literal [OF assms, of "''%''"] like_any by auto
  also have "\<dots> \<longleftrightarrow> sublist (toLowerCase q) (toLowerCase s)"
  proof
    assume "\<exists>a b c. s = a @ b @ c \<and> map lower_char b = map lower_char q"
    then obtain a b c where "s = a @ b @ c" "map lower_char b = map lower_char q" by blast
    then have "toLowerCase s = toLowerCase a @ toLowerCase q @ toLowerCase c"
      by (simp add: toLowerCase_def)
    then show "sublist (toLowerCase q) (toLowerCase s)"
      unfolding sublist_def by blast
  next
    assume "sublist (toLowerCase q) (toLowerCase s)"
    then obtain ps ss where "map lower_char s = ps @ map lower_char q @ ss"
      unfolding sublist_def toLowerCase_def by blast
    then have "\<exists>a r. s = a @ r \<and> ps = map lower_char a \<and> map lower_char q @ ss = map lower_char r"
      by (simp add: map_eq_append_conv)
    then obtain a r where a: "s = a @ r" and r: "map lower_char q @ ss = map lower_char r"
      by blast
    from r have "\<exists>b c. r = b @ c \<and> map lower_char q = map lower_char b \<and> ss = map lower_char c"
      by (simp add: append_eq_map_conv)
    then obtain b c where "r = b @ c" "map lower_char b = map lower_char q"
      by auto
    with a show "\<exists>a b c. s = a @ b @ c \<and> map lower_char b = map lower_char q" by blast
  qed
  finally show ?thesis .
qed


lemma length_sql_limit: "0 \<le> n \<Longrightarrow> length (sql_limit n xs) \<le> nat n"
  by (simp add: sql_limit_def)

lemma sorted_sql_limit: "sorted_wrt P xs \<Longrightarrow> sorted_wrt P (sql_limit n xs)"
  by (simp add: sql_limit_def sorted_wrt_take)

lemma order_by_last_visit_desc_sorted:
  "sorted_wrt (\<lambda>a b. last_visit_time b \<le> last_visit_time a) (order_by_last_visit_desc rs)"
proof -
  have "sorted (map (\<lambda>r. - last_visit_time r) (order_by_last_visit_desc rs))"
    unfolding order_by_last_visit_desc_def by (rule sorted_sort_key)
  then show ?thesis
    by (simp add: sorted_map)
qed

lemma set_order_by_last_visit_desc [simp]: "set (order_by_last_visit_desc rs) = set rs"
  by (simp add: order_by_last_visit_desc_def)

lemma hasSearchQuery_text: "trim q \<noteq> [] \<Longrightarrow> hasSearchQuery (JStr q) = Inr True"
  by (auto simp: hasSearchQuery_def trim_def)

lemma searchHistory_rows:
  assumes "searchHistory e (JStr q) opts = Inr res" and "trim q \<noteq> []"
  shows "\<exists>st n. db e = Inr st
           \<and> bind_limit e (if limit opts = JUndefined then JNum 50 else limit opts) = Inr n
           \<and> res = map (select_history e)
                     (sql_limit n (order_by_last_visit_desc
                         (filter (search_where e True (JStr q) (startDate opts) (endDate opts))
                            (urls st))))"
proof -
  have h: "hasSearchQuery (JStr q) = Inr True"
    using assms(2) by (rule hasSearchQuery_text)
  from assms(1) obtain st where st: "db e = Inr st"
    by (cases "db e") (simp_all add: searchHistory_def h queryHistory_def)
  from assms(1) obtain n where
    n: "bind_limit e (if limit opts = JUndefined then JNum 50 else limit opts) = Inr n"
    by (cases "bind_limit e (if limit opts = JUndefined then JNum 50 else limit opts)")
       (simp_all add: searchHistory_def h queryHistory_def st search_sql_def)
  from assms(1) n have
    "res = map (select_history e)
             (sql_limit n (order_by_last_visit_desc
                 (filter (search_where e True (JStr q) (startDate opts) (endDate opts))
                    (urls st))))"
    by (simp add: searchHistory_def h queryHistory_def st search_sql_def)
  with st n show ?thesis by blast
qed

text \<open>
  C4, as the code has it. The handler hands the query, the two dates and
  \<open>args.limit || 100\<close> to \<open>searchHistory\<close>. For a query that has a character other than
  white space and has neither \<open>%\<close> nor \<open>_\<close>, every entry that \<open>searchHistory\<close> returns
  has the query in its URL or in its title, as a substring without regard to ASCII case;
  its last visit is at or after the start of \<open>startDate\<close> and at or before the end of
  \<open>endDate\<close> when these are given; the entries are in descending order of last visit; and
  for a limit that is a number not below 0 there are at most that many.
\<close>

theorem searchHistory_matching_entries:
  assumes "searchHistory e (JStr q) opts = Inr res"
    and "trim q \<noteq> []" and "CHR ''%'' \<notin> set q" and "CHR ''_'' \<notin> set q"
  shows "(\<forall>r \<in> set res.
            (sublist (toLowerCase q) (toLowerCase (h_url r))
             \<or> (\<exists>t. h_title r = Some t \<and> sublist (toLowerCase q) (toLowerCase t)))
          \<and> (truthy (startDate opts) \<longrightarrow>
               (\<exists>t. date_parse e (to_string (startDate opts) @ ''T00:00:00'') = Some t
                    \<and> (t - epoch_1601_ms) * 1000 \<le> h_last_visit_time r))
          \<and> (truthy (endDate opts) \<longrightarrow>
               (\<exists>t. date_parse e (to_string (endDate opts) @ ''T23:59:59.999'') = Some t
                    \<and> h_last_visit_time r \<le> (t - epoch_1601_ms) * 1000)))
       \<and> sorted_wrt (\<lambda>a b. h_last_visit_time b \<le> h_last_visit_time a) res
       \<and> (\<forall>n. limit opts = JNum n \<and> 0 \<le> n \<longrightarrow> length res \<le> nat n)"
proof -
  let ?W = "search_where e True (JStr q) (startDate opts) (endDate opts)"
  from searchHistory_rows [OF assms(1,2)] obtain st n where
    st: "db e = Inr st"
    and n: "bind_limit e (if limit opts = JUndefined then JNum 50 else limit opts) = Inr n"
    and res: "res = map (select_history e)
                      (sql_limit n (order_by_last_visit_desc (filter ?W (urls st))))"
    by blast
  have pat: "like_pattern (JStr q) = ''%'' @ q @ ''%''"
    by (simp add: like_pattern_def)
  have entry: "(sublist (toLowerCase q) (toLowerCase (h_url r))
             \<or> (\<exists>t. h_title r = Some t \<and> sublist (toLowerCase q) (toLowerCase t)))
          \<and> (truthy (startDate opts) \<longrightarrow>
               (\<exists>t. date_parse e (to_string (startDate opts) @ ''T00:00:00'') = Some t
                    \<and> (t - epoch_1601_ms) * 1000 \<le> h_last_visit_time r))
          \<and> (truthy (endDate opts) \<longrightarrow>
               (\<exists>t. date_parse e (to_string (endDate opts) @ ''T23:59:59.999'') = Some t
                    \<and> h_last_visit_time r \<le> (t - epoch_1601_ms) * 1000))"
    if "r \<in> set res" for r
  proof -
    from that obtain u where u: "u \<in> set (urls st)" "?W u" and r: "r = select_history e u"
      unfolding res using set_sql_limit by fastforce
    have m: "like (''%'' @ q @ ''%'') (url u) \<or> (\<exists>t. title u = Some t \<and> like (''%'' @ q @ ''%'') t)"
      using u(2) unfolding search_where_def pat
      by (auto simp: like_null_def split: option.splits)
    have 1: "sublist (toLowerCase q) (toLowerCase (h_url r))
             \<or> (\<exists>t. h_title r = Some t \<and> sublist (toLowerCase q) (toLowerCase t))"
      using m unfolding like_contains [OF assms(3,4)] r by (simp add: select_history_def)
    have 2: "truthy (startDate opts) \<longrightarrow>
               (\<exists>t. date_parse e (to_string (startDate opts) @ ''T00:00:00'') = Some t
                    \<and> (t - epoch_1601_ms) * 1000 \<le> h_last_visit_time r)"
      using u(2) unfolding search_where_def r
      by (auto simp: ge_param_def day_timestamp_def select_history_def split: option.splits if_splits)
    have 3: "truthy (endDate opts) \<longrightarrow>
               (\<exists>t. date_parse e (to_string (endDate opts) @ ''T23:59:59.999'') = Some t
                    \<and> h_last_visit_time r \<le> (t - epoch_1601_ms) * 1000)"
      using u(2) unfolding search_where_def r
      by (auto simp: le_param_def day_timestamp_def select_history_def split: option.splits if_splits)
    from 1 2 3 show ?thesis by blast
  qed
  have "sorted_wrt (\<lambda>a b. last_visit_time b \<le> last_visit_time a)
          (sql_limit n (order_by_last_visit_desc (filter ?W (urls st))))"
    by (intro sorted_sql_limit order_by_last_visit_desc_sorted)
  then have sorted: "sorted_wrt (\<lambda>a b. h_last_visit_time b \<le> h_last_visit_time a) res"
    unfolding res by (simp add: sorted_wrt_map select_history_def)
  have capped: "\<forall>k. limit opts = JNum k \<and> 0 \<le> k \<longrightarrow> length res \<le> nat k"
  proof (intro allI impI)
    fix k assume k: "limit opts = JNum k \<and> 0 \<le> k"
    with n have "n = k" by simp
    with k show "length res \<le> nat k"
      unfolding res by (simp add: length_sql_limit)
  qed
  from entry sorted capped show ?thesis by blast
qed



lemmas search_eval =
  searchHistory_def hasSearchQuery_def queryHistory_def search_sql_def search_where_def
  select_history_def order_by_last_visit_desc_def like_pattern_def like_null_def lower_char_def
  ge_param_def le_param_def day_timestamp_def sql_limit_def chrome_datetime_def chrome_secs_def
  tdiv_def epoch_1601_ms_def sample_fields sample_date_parse_def mk_url_def chrome_us_def
  show_int_def trim_def js_whitespace_def no_dates_def

lemma search_github:
  "searchHistory (sample_env search_store) (JStr ''github'')
     \<lparr>startDate = JStr ''2024-01-01'', endDate = JStr ''2024-01-01'', limit = JNum 50\<rparr>
   = Inr [github_entry]"
  by (simp add: search_eval search_store_def github_entry_def)

lemma search_unlimited:
  "searchHistory (sample_env search_store) (JStr ''o'') (no_dates (JNum (- 1)))
   = Inr [x_entry, github_entry]"
  by (simp add: search_eval search_store_def github_entry_def x_entry_def)

theorem searchHistory_matching_entries_witness:
  "searchHistory (sample_env search_store) (JStr ''github'')
     \<lparr>startDate = JStr ''2024-01-01'', endDate = JStr ''2024-01-01'', limit = JNum 50\<rparr>
   = Inr [github_entry]
   \<and> sublist (toLowerCase ''github'') (toLowerCase (h_url github_entry))
   \<and> (\<exists>t. sample_date_parse ''2024-01-01T00:00:00'' = Some t
          \<and> (t - epoch_1601_ms) * 1000 \<le> h_last_visit_time github_entry)
   \<and> (\<exists>t. sample_date_parse ''2024-01-01T23:59:59.999'' = Some t
          \<and> h_last_visit_time github_entry \<le> (t - epoch_1601_ms) * 1000)
   \<and> length [github_entry] \<le> nat 50"
proof -
  have r: "searchHistory (sample_env search_store) (JStr ''github'')
             \<lparr>startDate = JStr ''2024-01-01'', endDate = JStr ''2024-01-01'', limit = JNum 50\<rparr>
           = Inr [github_entry]"
    by (rule search_github)
  have t: "trim ''github'' \<noteq> []"
    by (simp add: trim_def js_whitespace_def)
  have low: "toLowerCase ''github'' = ''github''"
    "toLowerCase ''https://GitHub.com/a'' = ''https://github.com/a''"
    by (simp_all add: toLowerCase_def lower_char_def)
  have sub: "sublist ''github'' ''https://github.com/a''"
    by (simp add: sublist_code prefix_code)
  show ?thesis
    using searchHistory_matching_entries [OF r t]
    by (simp add: r low sub sample_fields sample_date_parse_def epoch_1601_ms_def github_entry_def)
qed


lemma search_history_tool_query:
  assumes "m ''query'' = Some (JStr q)" and "q \<noteq> []" and "m ''limit'' = None"
  shows "search_history_tool e (Some m)
         = (case searchHistory e (JStr q)
                   \<lparr>startDate = get_prop m ''start_date'', endDate = get_prop m ''end_date'',
                    limit = JNum 100\<rparr> of
              Inl msg \<Rightarrow> text_result (search_error_text msg)
            | Inr rs \<Rightarrow>
                text_result
                  (format_search e (JStr q) (get_prop m ''start_date'') (get_prop m ''end_date'')
                     (JNum 100) rs),
            [SearchHistoryCall (JStr q) (get_prop m ''start_date'') (get_prop m ''end_date'')
               (JNum 100)])"
proof -
  have "js_or (get_prop m ''query'') (JStr []) = JStr q"
    using assms(1,2) by (simp add: get_prop_def js_or_def)
  moreover have "search_history_limit m = JNum 100"
    using assms(3) by (simp add: search_history_limit_def get_prop_def js_or_def)
  ultimately show ?thesis
    using assms(2) by (simp add: search_history_tool_def Let_def)
qed

lemma search_blank_from:
  "searchHistory (sample_env search_store) (JStr '' '')
     \<lparr>startDate = JStr ''2024-01-01'', endDate = JUndefined, limit = JNum 100\<rparr>
   = Inr [x_entry, github_entry]"
  by (simp add: search_eval search_store_def github_entry_def x_entry_def)

text \<open>
  C4, as the claim states it, fails. A query of one blank is not empty; with a start date
  the handler passes both on, \<open>searchHistory\<close> trims the query, finds nothing left and
  returns every row of the date range, among them one whose URL and title have no blank.
  And with the limit \<open>-1\<close> the two rows that match \<open>o\<close> are returned: more than the limit.
\<close>

theorem blank_query_counterexample:
  "callTool (sample_env search_store)
     \<lparr>req_name = ''search_history'',
      req_arguments = Some [''query'' \<mapsto> JStr '' '', ''start_date'' \<mapsto> JStr ''2024-01-01'']\<rparr>
   = (Inr (text_result
             (format_search (sample_env search_store) (JStr '' '') (JStr ''2024-01-01'') JUndefined
                (JNum 100) [x_entry, github_entry])),
      [SearchHistoryCall (JStr '' '') (JStr ''2024-01-01'') JUndefined (JNum 100)])
   \<and> \<not> sublist (toLowerCase '' '') (toLowerCase (h_url x_entry))
   \<and> h_title x_entry = Some ''X''
   \<and> \<not> sublist (toLowerCase '' '') (toLowerCase ''X'')
   \<and> searchHistory (sample_env search_store) (JStr ''o'') (no_dates (JNum (- 1)))
     = Inr [x_entry, github_entry]
   \<and> \<not> int (length [x_entry, github_entry]) \<le> - 1"
proof -
  have "search_history_tool (sample_env search_store)
          (Some [''query'' \<mapsto> JStr '' '', ''start_date'' \<mapsto> JStr ''2024-01-01''])
        = (case searchHistory (sample_env search_store) (JStr '' '')
                  \<lparr>startDate = get_prop [''query'' \<mapsto> JStr '' '', ''start_date'' \<mapsto> JStr ''2024-01-01'']
                                 ''start_date'',
                   endDate = get_prop [''query'' \<mapsto> JStr '' '', ''start_date'' \<mapsto> JStr ''2024-01-01'']
                               ''end_date'',
                   limit = JNum 100\<rparr> of
             Inl msg \<Rightarrow> text_result (search_error_text msg)
           | Inr rs \<Rightarrow>
               text_result
                 (format_search (sample_env search_store) (JStr '' '')
                    (get_prop [''query'' \<mapsto> JStr '' '', ''start_date'' \<mapsto> JStr ''2024-01-01'']
                       ''start_date'')
                    (get_prop [''query'' \<mapsto> JStr '' '', ''start_date'' \<mapsto> JStr ''2024-01-01'']
                       ''end_date'')
                    (JNum 100) rs),
           [SearchHistoryCall (JStr '' '')
              (get_prop [''query'' \<mapsto> JStr '' '', ''start_date'' \<mapsto> JStr ''2024-01-01'']
                 ''start_date'')
              (get_prop [''query'' \<mapsto> JStr '' '', ''start_date'' \<mapsto> JStr ''2024-01-01'']
                 ''end_date'')
              (JNum 100)])"
    by (rule search_history_tool_query) simp_all
  then have tool: "search_history_tool (sample_env search_store)
          (Some [''query'' \<mapsto> JStr '' '', ''start_date'' \<mapsto> JStr ''2024-01-01''])
        = (text_result
             (format_search (sample_env search_store) (JStr '' '') (JStr ''2024-01-01'') JUndefined
                (JNum 100) [x_entry, github_entry]),
           [SearchHistoryCall (JStr '' '') (JStr ''2024-01-01'') JUndefined (JNum 100)])"
    by (simp add: get_prop_def search_blank_from)
  have low: "toLowerCase '' '' = '' ''" "toLowerCase ''http://x.org/'' = ''http://x.org/''"
    "toLowerCase ''X'' = ''x''"
    by (simp_all add: toLowerCase_def lower_char_def)
  have sub: "\<not> sublist '' '' ''http://x.org/''" "\<not> sublist '' '' ''x''"
    by (simp_all add: sublist_code prefix_code)
  show ?thesis
    unfolding callTool_search_history tool search_unlimited
    by (simp add: x_entry_def low sub)
qed

section \<open>The default limit of search_history\<close>

lemma length_order_by_last_visit_desc [simp]:
  "length (order_by_last_visit_desc rs) = length rs"
  by (simp add: order_by_last_visit_desc_def)

lemma many_store_all_match:
  "filter (search_where e True (JStr ''a'') JUndefined JUndefined) (urls (many_store k))
   = urls (many_store k)"
  by (simp add: many_store_def search_where_def like_pattern_def like_null_def mk_url_def
        lower_char_def)

lemma many_store_search:
  "\<exists>rs. searchHistory (sample_env (many_store k)) (JStr ''a'') (no_dates (JNum 100)) = Inr rs
        \<and> length rs = min 100 k"
proof -
  have h: "hasSearchQuery (JStr ''a'') = Inr True"
    by (simp add: hasSearchQuery_def trim_def js_whitespace_def)
  have "searchHistory (sample_env (many_store k)) (JStr ''a'') (no_dates (JNum 100))
        = Inr (map (select_history (sample_env (many_store k)))
                 (sql_limit 100 (order_by_last_visit_desc (urls (many_store k)))))"
    unfolding searchHistory_def h
    by (simp add: no_dates_def queryHistory_def sample_fields search_sql_def many_store_all_match)
  moreover have "length (map (select_history (sample_env (many_store k)))
                 (sql_limit 100 (order_by_last_visit_desc (urls (many_store k))))) = min 100 k"
    by (simp add: sql_limit_def many_store_def)
  ultimately show ?thesis by blast
qed

text \<open>
  The notice of truncation: when the number of results is the limit, a positive number,
  the text of the result contains the notice.
\<close>

lemma truncation_notice_shown:
  assumes "rs \<noteq> []" and "int (length rs) = n"
  shows "sublist (truncation_notice (JNum n)) (format_search e q sd ed (JNum n) rs)"
proof -
  have li: "length_is rs (JNum n)"
    using assms(2) by (simp add: length_is_def)
  have "format_search e q sd ed (JNum n) rs
        = ((if truthy q then ''Search results for '' @ DQ @ to_string q @ DQ @ '':'' @ NL @ NL
            else ''Browsing history:'' @ NL @ NL)
           @ concat (map (format_search_entry e) (enumerate 0 rs))
           @ NL @ ''Total results: '' @ show_nat (length rs))
          @ truncation_notice (JNum n) @ date_range_line sd ed"
    using assms(1) li unfolding format_search_def by simp
  then show ?thesis
    unfolding sublist_def by blast
qed

text \<open>
  C5 on the code. The schema of \<open>search_history\<close> declares the default 50 for \<open>limit\<close>,
  and the handler takes 100 when the argument is absent: on a history with 51 matching
  URLs a call without \<open>limit\<close> asks the Data Provider for 100 rows and gets all 51.
\<close>

theorem search_history_default_limit:
  "map_of (tproperties (hd listTools)) ''limit'' = Some (plain ''number'' (Some (JNum 50)))
   \<and> search_history_limit [''query'' \<mapsto> JStr ''a''] = JNum 100
   \<and> (\<exists>rs. callTool (sample_env (many_store 51))
               \<lparr>req_name = ''search_history'', req_arguments = Some [''query'' \<mapsto> JStr ''a'']\<rparr>
             = (Inr (text_result
                       (format_search (sample_env (many_store 51)) (JStr ''a'') JUndefined
                          JUndefined (JNum 100) rs)),
                [SearchHistoryCall (JStr ''a'') JUndefined JUndefined (JNum 100)])
           \<and> length rs = 51)"
proof -
  obtain rs where rs:
    "searchHistory (sample_env (many_store 51)) (JStr ''a'') (no_dates (JNum 100)) = Inr rs"
    "length rs = min 100 51"
    using many_store_search [of 51] by blast
  have "search_history_tool (sample_env (many_store 51)) (Some [''query'' \<mapsto> JStr ''a''])
        = (text_result
             (format_search (sample_env (many_store 51)) (JStr ''a'') JUndefined JUndefined
                (JNum 100) rs),
           [SearchHistoryCall (JStr ''a'') JUndefined JUndefined (JNum 100)])"
    using rs(1)
    by (simp add: search_history_tool_query [where q = "''a''"] get_prop_def no_dates_def)
  then have "callTool (sample_env (many_store 51))
               \<lparr>req_name = ''search_history'', req_arguments = Some [''query'' \<mapsto> JStr ''a'']\<rparr>
             = (Inr (text_result
                       (format_search (sample_env (many_store 51)) (JStr ''a'') JUndefined
                          JUndefined (JNum 100) rs)),
                [SearchHistoryCall (JStr ''a'') JUndefined JUndefined (JNum 100)])
           \<and> length rs = 51"
    unfolding callTool_search_history using rs(2) by simp
  moreover have "map_of (tproperties (hd listTools)) ''limit''
                 = Some (plain ''number'' (Some (JNum 50)))"
    by (simp add: listTools_def)
  moreover have "search_history_limit [''query'' \<mapsto> JStr ''a''] = JNum 100"
    by (simp add: search_history_limit_def get_prop_def js_or_def)
  ultimately show ?thesis by blast
qed


end
